theory Spec2Isabelle
  imports Main "HOL-Library.AList"
begin


section \<open>JavaScript values\<close>

text \<open>
  The proxy (\<^verbatim>\<open>src/openapi-mcp-server/mcp/proxy.ts\<close>) handles payloads of type
  \<^verbatim>\<open>any\<close>. A value is one of the JSON values or \<^verbatim>\<open>undefined\<close>; an object is
  the list of its own fields in insertion order. Numbers in payloads are opaque to the
  code (it compares the HTTP status and nothing else), so integers stand for them.
\<close>

datatype json =
    JUndefined
  | JNull
  | JBool bool
  | JNum int
  | JStr string
  | JArr "json list"
  | JObj "(string \<times> json) list"

text \<open>Truthiness, as \<^verbatim>\<open>if (x)\<close>, \<^verbatim>\<open>x || d\<close> and \<^verbatim>\<open>x && y\<close> test it.\<close>

fun truthy :: "json \<Rightarrow> bool" where
  "truthy JUndefined = False"
| "truthy JNull = False"
| "truthy (JBool b) = b"
| "truthy (JNum n) = (n \<noteq> 0)"
| "truthy (JStr s) = (s \<noteq> [])"
| "truthy (JArr xs) = True"
| "truthy (JObj fs) = True"

text \<open>\<^verbatim>\<open>x || d\<close>\<close>

definition or_else :: "json \<Rightarrow> json \<Rightarrow> json" where
  "or_else x d = (if truthy x then x else d)"

text \<open>
  \<^verbatim>\<open>v.k\<close> on a value that is neither \<^verbatim>\<open>null\<close> nor \<^verbatim>\<open>undefined\<close>: the own field
  of an object, \<^verbatim>\<open>undefined\<close> otherwise. The keys the code reads (\<^verbatim>\<open>results\<close>,
  \<^verbatim>\<open>next_cursor\<close>, \<^verbatim>\<open>id\<close>, \<^verbatim>\<open>type\<close>, \<^verbatim>\<open>properties\<close>, ...) are no keys of
  an array or a string, so that this is what JavaScript returns for them. Reading a
  field of \<^verbatim>\<open>null\<close> or \<^verbatim>\<open>undefined\<close> throws; each place where the code can do
  that tests \<open>nullish\<close> first.
\<close>

fun get :: "string \<Rightarrow> json \<Rightarrow> json" where
  "get k (JObj fs) = (case map_of fs k of Some v \<Rightarrow> v | None \<Rightarrow> JUndefined)"
| "get k v = JUndefined"

definition nullish :: "json \<Rightarrow> bool" where
  "nullish v = (v = JUndefined \<or> v = JNull)"

text \<open>Decimal text of a number, as a template literal prints it.\<close>

definition digit :: "nat \<Rightarrow> char" where
  "digit n = ''0123456789'' ! n"

fun show_nat :: "nat \<Rightarrow> string" where
  "show_nat n = (if n < 10 then [digit n] else show_nat (n div 10) @ [digit (n mod 10)])"

declare show_nat.simps [simp del]

definition show_int :: "int \<Rightarrow> string" where
  "show_int i = (if i < 0 then CHR ''-'' # show_nat (nat (- i)) else show_nat (nat i))"

text \<open>
  The own enumerable fields of a value, as the object spread \<^verbatim>\<open>{...v}\<close> and
  \<^verbatim>\<open>Object.entries(v)\<close> list them: the fields of an object, the indexed elements
  of an array, the indexed characters of a string, nothing for the other values.
\<close>

fun spread :: "json \<Rightarrow> (string \<times> json) list" where
  "spread (JObj fs) = fs"
| "spread (JArr xs) = zip (map show_nat [0..<length xs]) xs"
| "spread (JStr s) = zip (map show_nat [0..<length s]) (map (\<lambda>c. JStr [c]) s)"
| "spread v = []"

text \<open>
  \<^verbatim>\<open>{...o, k: v}\<close> and \<^verbatim>\<open>o.k = v\<close>: an existing key keeps its place, a new
  key goes last. This is \<^const>\<open>AList.update\<close>.
\<close>

abbreviation set_field :: "string \<Rightarrow> json \<Rightarrow> (string \<times> json) list \<Rightarrow> (string \<times> json) list" where
  "set_field k v fs \<equiv> AList.update k v fs"

text \<open>\<^verbatim>\<open>s.includes(t)\<close> on strings.\<close>

fun starts_with :: "string \<Rightarrow> string \<Rightarrow> bool" where
  "starts_with s [] = True"
| "starts_with [] (d # t) = False"
| "starts_with (c # s) (d # t) = (c = d \<and> starts_with s t)"

fun str_includes :: "string \<Rightarrow> string \<Rightarrow> bool" where
  "str_includes [] t = (t = [])"
| "str_includes (c # s) t = (starts_with (c # s) t \<or> str_includes s t)"

text \<open>
  \<^verbatim>\<open>String(v)\<close>, the conversion a template literal applies: an array joins its
  elements with commas, \<^verbatim>\<open>null\<close> and \<^verbatim>\<open>undefined\<close> elements printing as nothing.
  An object prints as \<^verbatim>\<open>[object Object]\<close>, unless it has a field \<^verbatim>\<open>toString\<close> of
  its own: the field of a JSON value is no function, and the conversion throws a
  \<^verbatim>\<open>TypeError\<close>, which is \<open>None\<close>. Numbers print in full (JavaScript prints an
  integer of more than 21 digits with an exponent; the identifiers that the code
  prints are strings).
\<close>

fun join_comma :: "string list \<Rightarrow> string" where
  "join_comma [] = []"
| "join_comma [s] = s"
| "join_comma (s # t # ts) = s @ '','' @ join_comma (t # ts)"

fun js_string :: "json \<Rightarrow> string option" where
  "js_string JUndefined = Some ''undefined''"
| "js_string JNull = Some ''null''"
| "js_string (JBool b) = Some (if b then ''true'' else ''false'')"
| "js_string (JNum n) = Some (show_int n)"
| "js_string (JStr s) = Some s"
| "js_string (JArr xs) =
     map_option join_comma
       (those (map (\<lambda>x. if x = JUndefined \<or> x = JNull then Some [] else js_string x) xs))"
| "js_string (JObj fs) = (if ''toString'' \<in> fst ` set fs then None else Some ''[object Object]'')"

text \<open>
  The test \<^verbatim>\<open>0 < v\<close>. The value is converted to a number: a boolean counts as 0
  or 1, \<^verbatim>\<open>null\<close> as 0, \<^verbatim>\<open>undefined\<close> as no number, an array or an object by its
  text, and a text by the numeric literal it holds between white space, if any. Only
  the sign of the number is needed. (A literal so small that it rounds to 0 is not
  told apart from a positive one; white space is the one of ASCII.)
\<close>

definition is_digit :: "char \<Rightarrow> bool" where
  "is_digit c = (c \<in> set ''0123456789'')"

definition is_space :: "char \<Rightarrow> bool" where
  "is_space c = (c \<in> {CHR '' '', CHR 0x09, CHR 0x0A, CHR 0x0B, CHR 0x0C, CHR 0x0D})"

definition trim :: "string \<Rightarrow> string" where
  "trim s = rev (dropWhile is_space (rev (dropWhile is_space s)))"

definition some_nonzero :: "string \<Rightarrow> bool" where
  "some_nonzero ds = (\<exists>c\<in>set ds. c \<noteq> CHR ''0'')"

text \<open>An exponent part, or nothing: \<^verbatim>\<open>e\<close> or \<^verbatim>\<open>E\<close>, a sign if any, and digits.\<close>

definition exponent_or_nothing :: "string \<Rightarrow> bool" where
  "exponent_or_nothing s =
     (case s of
        [] \<Rightarrow> True
      | c # t \<Rightarrow>
          (c = CHR ''e'' \<or> c = CHR ''E'')
          \<and> (let ds = (case t of d # u \<Rightarrow> if d = CHR ''+'' \<or> d = CHR ''-'' then u else t | [] \<Rightarrow> t)
             in ds \<noteq> [] \<and> list_all is_digit ds))"

text \<open>An unsigned decimal literal that is not 0: digits, a fraction, an exponent.\<close>

definition positive_decimal :: "string \<Rightarrow> bool" where
  "positive_decimal s =
     (let whole = takeWhile is_digit s;
          after = dropWhile is_digit s;
          dot = (after \<noteq> [] \<and> hd after = CHR ''.'');
          fraction = (if dot then takeWhile is_digit (tl after) else []);
          rest = (if dot then dropWhile is_digit (tl after) else after)
      in (whole \<noteq> [] \<or> fraction \<noteq> []) \<and> exponent_or_nothing rest
         \<and> some_nonzero (whole @ fraction))"

text \<open>A literal in base 16, 8 or 2 that is not 0; such a literal takes no sign.\<close>

definition positive_in_base :: "string \<Rightarrow> bool" where
  "positive_in_base s =
     (case s of
        z # b # ds \<Rightarrow>
          z = CHR ''0'' \<and> ds \<noteq> [] \<and> some_nonzero ds
          \<and> ((b = CHR ''x'' \<or> b = CHR ''X'') \<and> set ds \<subseteq> set ''0123456789abcdefABCDEF''
             \<or> (b = CHR ''o'' \<or> b = CHR ''O'') \<and> set ds \<subseteq> set ''01234567''
             \<or> (b = CHR ''b'' \<or> b = CHR ''B'') \<and> set ds \<subseteq> set ''01'')
      | _ \<Rightarrow> False)"

definition positive_literal :: "string \<Rightarrow> bool" where
  "positive_literal s =
     (let t = trim s;
          u = (if t \<noteq> [] \<and> hd t = CHR ''+'' then tl t else t)
      in u = ''Infinity'' \<or> positive_decimal u \<or> positive_in_base t)"

definition positive :: "json \<Rightarrow> bool option" where
  "positive v =
     (case v of
        JNum n \<Rightarrow> Some (0 < n)
      | JBool b \<Rightarrow> Some b
      | JStr s \<Rightarrow> Some (positive_literal s)
      | JUndefined \<Rightarrow> Some False
      | JNull \<Rightarrow> Some False
      | _ \<Rightarrow> map_option positive_literal (js_string v))"

text \<open>
  \<^verbatim>\<open>JSON.parse(JSON.stringify(v))\<close> for a value that is not \<^verbatim>\<open>undefined\<close>: a
  field whose value is \<^verbatim>\<open>undefined\<close> is left out, an \<^verbatim>\<open>undefined\<close> array element
  becomes \<^verbatim>\<open>null\<close>.
\<close>

fun JSON_roundtrip :: "json \<Rightarrow> json" where
  "JSON_roundtrip (JArr xs) = JArr (map (\<lambda>x. if x = JUndefined then JNull else JSON_roundtrip x) xs)"
| "JSON_roundtrip (JObj fs) =
     JObj (map (\<lambda>p. (fst p, JSON_roundtrip (snd p))) (filter (\<lambda>p. snd p \<noteq> JUndefined) fs))"
| "JSON_roundtrip v = v"


section \<open>Errors, the HTTP client and the state of the proxy\<close>

text \<open>
  A thrown value is an \<^verbatim>\<open>Error\<close> with its name and message, or the
  \<^verbatim>\<open>HttpClientError\<close> of the HTTP client with its message, status and data.
\<close>

datatype error =
    Error string string
  | HttpClientError string int json

fun message :: "error \<Rightarrow> string" where
  "message (Error n m) = m"
| "message (HttpClientError m st d) = m"

definition type_error :: "string \<Rightarrow> error" where
  "type_error m = Error ''TypeError'' m"

text \<open>
  The \<^verbatim>\<open>TypeError\<close> of reading the field \<open>k\<close> of \<open>v\<close>, which is \<^verbatim>\<open>null\<close> or
  \<^verbatim>\<open>undefined\<close>, and the one of converting an object that has a field
  \<^verbatim>\<open>toString\<close> to a text or a number. (The texts are the engine's; the code only
  ever tests a message for the words \<^verbatim>\<open>timed out\<close>.)
\<close>

definition cannot_read :: "json \<Rightarrow> string \<Rightarrow> error" where
  "cannot_read v k =
     type_error (''Cannot read properties of '' @ (if v = JNull then ''null'' else ''undefined'')
       @ '' (reading '' @ [CHR 0x27] @ k @ [CHR 0x27] @ '')'')"

definition cannot_convert :: error where
  "cannot_convert = type_error ''Cannot convert object to primitive value''"

text \<open>
  An operation descriptor of the OpenAPI lookup table, and a call of
  \<^verbatim>\<open>httpClient.executeOperation(operation, params)\<close>, which resolves to a response
  with a status and data, or rejects.
\<close>

datatype operation = Operation (op_method: string) (op_path: string)

type_synonym request = "operation \<times> json"

datatype exec_result = Resolved int json | Rejected error

text \<open>
  The mutable state of an \<^verbatim>\<open>MCPProxy\<close>: its five caches, and the log of the calls
  made to the HTTP client so far. A \<^verbatim>\<open>Map\<close> compares keys by value when they
  are strings, numbers, booleans, \<^verbatim>\<open>null\<close> or \<^verbatim>\<open>undefined\<close>, which is the
  equality of \<^typ>\<open>json\<close>; the identifiers of the API are strings. The state also
  records the rejections that no handler takes: a promise that rejects while nothing
  awaits it, which the runtime reports as an unhandled rejection.
\<close>

record world =
  calls :: "request list"
  pageCache :: "json \<rightharpoonup> json"
  blockCache :: "json \<rightharpoonup> json"
  databaseCache :: "json \<rightharpoonup> json"
  commentCache :: "json \<rightharpoonup> json"
  propertyCache :: "string \<rightharpoonup> json"
  unhandled :: "error list"

text \<open>
  What the proxy is given and never changes: the HTTP client, the lookup table of
  operations, and \<^verbatim>\<open>JSON.stringify\<close> as a function to strings (used where the
  text itself becomes a field of the result). The HTTP client is external: its answer
  may depend on the request and on every call made before it.
\<close>

record host =
  httpClient :: "request list \<Rightarrow> operation \<Rightarrow> json \<Rightarrow> exec_result"
  openApiLookup :: "string \<rightharpoonup> operation"
  JSON_stringify :: "json \<Rightarrow> string"

definition findOperation :: "host \<Rightarrow> string \<Rightarrow> operation option" where
  "findOperation h operationId = openApiLookup h operationId"

definition executeOperation :: "host \<Rightarrow> operation \<Rightarrow> json \<Rightarrow> world \<Rightarrow> exec_result \<times> world" where
  "executeOperation h operation params w =
     (httpClient h (calls w) operation params, w\<lparr>calls := calls w @ [(operation, params)]\<rparr>)"

text \<open>
  A tool response \<^verbatim>\<open>{content: [{type: 'text', text: JSON.stringify(v)}]}\<close> is
  represented by the value \<open>v\<close> that was serialised. \<^verbatim>\<open>JSON.parse\<close> of the text
  gives the value back; the text of \<^verbatim>\<open>undefined\<close> is \<^verbatim>\<open>undefined\<close>, which does
  not parse.
\<close>

datatype tool_response = Text json

fun JSON_parse :: "tool_response \<Rightarrow> error + json" where
  "JSON_parse (Text v) =
     (if v = JUndefined then Inl (Error ''SyntaxError'' ''Unexpected token u in JSON at position 0'')
      else Inr (JSON_roundtrip v))"

section \<open>Tasks that run together\<close>

text \<open>
  An \<^verbatim>\<open>async\<close> function runs without interruption up to its first \<^verbatim>\<open>await\<close>.
  When the code starts several calls before it awaits any of them, each call has by
  then either settled or sent its first request; the answers are taken up
  afterwards. A call is therefore given in two parts. Its start says what the call
  has done when it gives control back: it is \<open>Ready\<close> with its value, or it is
  \<open>Waiting\<close> for the answer to the request it sent (the answer of the HTTP client is
  determined by the request and the calls logged before it). Its finish is the rest
  of the call, from the answer on.

  The order in which the answers arrive is not determined by the code. The model
  fixes one order, stated where tasks are finished, and lets a task that is taken up
  run to its end before the next one is.
\<close>

datatype 'a started = Ready 'a | Waiting exec_result

text \<open>
  What becomes of a task that is taken up. It settles with a value, in a state of
  the proxy. Or it stays \<open>Pending\<close> for ever while the event loop goes on: the
  source hands out cursors without end. Or the event loop is \<open>Stuck\<close> in it: a
  loop whose every turn awaits a promise that is settled already goes on in the
  microtask queue, so that from then on no timer fires and no answer is read.
\<close>

datatype 'a outcome = Settled 'a world | Pending | Stuck

text \<open>The value a task settles with, and the state it leaves the proxy in, if it comes to rest.\<close>

definition settled :: "'a outcome \<Rightarrow> 'a option" where
  "settled out = (case out of Settled v w \<Rightarrow> Some v | Pending \<Rightarrow> None | Stuck \<Rightarrow> None)"

definition at_rest :: "'a outcome \<Rightarrow> world option" where
  "at_rest out = (case out of Settled v w \<Rightarrow> Some w | Pending \<Rightarrow> None | Stuck \<Rightarrow> None)"


section \<open>The pagination merge: \<^verbatim>\<open>handleBlockChildrenParallel\<close>\<close>

text \<open>
  Lines 1002 to 1085 of \<^verbatim>\<open>proxy.ts\<close>. The \<^verbatim>\<open>.then\<close> and \<^verbatim>\<open>.catch\<close> of a
  page request turn every outcome into a pair of results and next cursor: a
  response that is not 200, a rejection, and a 200 response without data (reading its
  \<^verbatim>\<open>results\<close> throws inside \<^verbatim>\<open>.then\<close>) all give no results and no cursor.
\<close>

definition maxParallelRequests :: nat where
  "maxParallelRequests = 5"

definition page_of_response :: "exec_result \<Rightarrow> json \<times> json" where
  "page_of_response r =
     (case r of
        Resolved st d \<Rightarrow>
          if st = 200 then
            (if nullish d then (JArr [], JNull)
             else (or_else (get ''results'' d) (JArr []), get ''next_cursor'' d))
          else (JArr [], JNull)
      | Rejected e \<Rightarrow> (JArr [], JNull))"

text \<open>
  \<^verbatim>\<open>results.push(...response.results)\<close>: the argument is spread (an array gives
  its elements, a string its characters, anything else is not iterable), and
  \<^verbatim>\<open>results\<close> has to be an array to have a \<^verbatim>\<open>push\<close>.
\<close>

definition iterate :: "json \<Rightarrow> error + json list" where
  "iterate xs =
     (case xs of
        JArr ys \<Rightarrow> Inr ys
      | JStr s \<Rightarrow> Inr (map (\<lambda>c. JStr [c]) s)
      | _ \<Rightarrow> Inl (type_error ''response.results is not iterable''))"

definition push_spread :: "json \<Rightarrow> json \<Rightarrow> error + json" where
  "push_spread results xs =
     (case iterate xs of
        Inl e \<Rightarrow> Inl e
      | Inr ys \<Rightarrow>
          (case results of
             JArr rs \<Rightarrow> Inr (JArr (rs @ ys))
           | _ \<Rightarrow> Inl (type_error ''results.push is not a function'')))"

text \<open>The \<^verbatim>\<open>for (const response of pageResponses)\<close> loop of lines 1054 to 1062.\<close>

fun merge_responses :: "(json \<times> json) list \<Rightarrow> json \<Rightarrow> json \<Rightarrow> error + (json \<times> json)" where
  "merge_responses [] results nextCursor = Inr (results, nextCursor)"
| "merge_responses (response # rest) results nextCursor =
     (case push_spread results (fst response) of
        Inl e \<Rightarrow> Inl e
      | Inr results' \<Rightarrow>
          merge_responses rest results' (if truthy (snd response) then snd response else JNull))"

text \<open>
  The \<^verbatim>\<open>while (nextCursor)\<close> loop of lines 1025 to 1070, with its state: the
  results, the cursor and the requests waiting in \<^verbatim>\<open>pageRequests\<close>. A request is
  issued when it is pushed; the waiting list holds what each request will resolve to.
  The loop ends only when the source stops handing out cursors, so it is a partial
  function: \<open>None\<close> is a merge that never returns.
\<close>

definition nextPageParams :: "json \<Rightarrow> json \<Rightarrow> json" where
  "nextPageParams params nextCursor = JObj (set_field ''start_cursor'' nextCursor (spread params))"

partial_function (option) page_loop ::
  "host \<Rightarrow> operation \<Rightarrow> json \<Rightarrow> json \<Rightarrow> json \<Rightarrow> (json \<times> json) list \<Rightarrow> world
     \<Rightarrow> ((error + json) \<times> world) option" where
  "page_loop h operation params results nextCursor pageRequests w =
     (if \<not> truthy nextCursor then Some (Inr results, w)
      else
        let sent = executeOperation h operation (nextPageParams params nextCursor) w;
            pageRequests' = pageRequests @ [page_of_response (fst sent)]
        in
          if maxParallelRequests \<le> length pageRequests' \<or> \<not> truthy nextCursor then
            (case merge_responses pageRequests' results nextCursor of
               Inl e \<Rightarrow> Some (Inl e, snd sent)
             | Inr merged \<Rightarrow>
                 if \<not> truthy (snd merged) then Some (Inr (fst merged), snd sent)
                 else page_loop h operation params (fst merged) (snd merged) [] (snd sent))
          else if \<not> truthy nextCursor then Some (Inr results, snd sent)
          else page_loop h operation params results nextCursor pageRequests' (snd sent))"

text \<open>
  The function from its first \<^verbatim>\<open>await\<close> on (line 1006): what it does with the
  answer to the request for the first page. The function itself sends that request
  and goes on with the answer.
\<close>

definition handleBlockChildrenParallel_finish ::
  "host \<Rightarrow> operation \<Rightarrow> json \<Rightarrow> exec_result \<Rightarrow> world \<Rightarrow> ((error + tool_response) \<times> world) option" where
  "handleBlockChildrenParallel_finish h operation params response w =
     (case response of
        Rejected e \<Rightarrow> Some (Inl e, w)
      | Resolved st d \<Rightarrow>
          if st \<noteq> 200 then Some (Inr (Text d), w)
          else if nullish d then Some (Inl (cannot_read d ''results''), w)
          else
            (case page_loop h operation params (or_else (get ''results'' d) (JArr []))
                    (get ''next_cursor'' d) [] w of
               None \<Rightarrow> None
             | Some (Inl e, w') \<Rightarrow> Some (Inl e, w')
             | Some (Inr results, w') \<Rightarrow>
                 Some (Inr (Text (JObj
                   (set_field ''next_cursor'' JNull
                     (set_field ''has_more'' (JBool False)
                       (set_field ''results'' results (spread d)))))), w')))"

definition handleBlockChildrenParallel ::
  "host \<Rightarrow> operation \<Rightarrow> json \<Rightarrow> world \<Rightarrow> ((error + tool_response) \<times> world) option" where
  "handleBlockChildrenParallel h operation params w =
     (let sent = executeOperation h operation params w in
      handleBlockChildrenParallel_finish h operation params (fst sent) (snd sent))"



section \<open>The options of a crawl\<close>

text \<open>
  \<^verbatim>\<open>RecursiveExplorationOptions\<close> (lines 259 to 268): every field is optional. The
  numbers are integers, as the input schema of the tool declares them (lines 338 to
  365); neither the schema nor the code bounds them, so they may be negative. The
  arguments of the tool \<^verbatim>\<open>API-get-one-pager\<close> are these fields and the
  \<^verbatim>\<open>page_id\<close>. The field \<open>maxParallel\<close> is the option \<^verbatim>\<open>maxParallelRequests\<close>,
  which no function reads (the merge has a constant of that name).
\<close>

record RecursiveExplorationOptions =
  maxDepth :: "int option"
  includeDatabases :: "bool option"
  includeComments :: "bool option"
  includeProperties :: "bool option"
  maxParallel :: "int option"
  skipCache :: "bool option"
  batchSize :: "int option"
  timeoutMs :: "int option"

record one_pager_params = RecursiveExplorationOptions +
  page_id :: json

text \<open>
  \<^verbatim>\<open>n || d\<close> on an optional number, and the truthiness of an optional flag. A
  number that is 0 gives way to the default; a negative number does not.
\<close>

definition num_or :: "int option \<Rightarrow> int \<Rightarrow> int" where
  "num_or x d = (case x of None \<Rightarrow> d | Some n \<Rightarrow> if n = 0 then d else n)"

definition flag :: "bool option \<Rightarrow> bool" where
  "flag x = (case x of None \<Rightarrow> False | Some b \<Rightarrow> b)"

text \<open>\<^verbatim>\<open>${n}\<close> for an optional number.\<close>

definition show_opt :: "int option \<Rightarrow> string" where
  "show_opt x = (case x of None \<Rightarrow> ''undefined'' | Some n \<Rightarrow> show_int n)"

text \<open>
  \<^verbatim>\<open>String(error)\<close>, the name and the message. It is applied at line 770 only,
  where nothing but a \<^verbatim>\<open>TypeError\<close> can arrive.
\<close>

fun error_string :: "error \<Rightarrow> string" where
  "error_string (Error n m) = n @ '': '' @ m"
| "error_string (HttpClientError m st d) = ''HttpClientError: '' @ m"

section \<open>The helpers of the crawler\<close>

text \<open>
  \<^verbatim>\<open>retrievePageBasicInfo\<close>, lines 799 to 842. Up to its \<^verbatim>\<open>await\<close> (line 820)
  the call reads the cache, looks the operation up and sends the request. Reading
  the cached page is outside the \<^verbatim>\<open>try\<close>, so that a cached \<^verbatim>\<open>null\<close> makes the
  call reject; every failure of the fetch is caught.
\<close>

definition retrievePageBasicInfo_start ::
  "host \<Rightarrow> json \<Rightarrow> RecursiveExplorationOptions \<Rightarrow> world \<Rightarrow> (error + json) started \<times> world" where
  "retrievePageBasicInfo_start h pageId options w =
     (case (if \<not> flag (skipCache options) then pageCache w pageId else None) of
        Some cachedData \<Rightarrow>
          if nullish cachedData then (Ready (Inl (cannot_read cachedData ''id'')), w)
          else
            (Ready (Inr (JObj [(''id'', get ''id'' cachedData),
                (''title'', or_else (get ''title'' (get ''properties'' cachedData)) (JObj [(''text'', JNull)])),
                (''icon'', get ''icon'' cachedData),
                (''cover'', get ''cover'' cachedData),
                (''url'', get ''url'' cachedData),
                (''fromCache'', JBool True)])), w)
      | None \<Rightarrow>
          (case findOperation h ''API-retrieve-a-page'' of
             None \<Rightarrow>
               (Ready (Inr (JObj [(''id'', pageId), (''note'', JStr ''API-retrieve-a-page method not found'')])), w)
           | Some operation \<Rightarrow>
               (let sent = executeOperation h operation (JObj [(''page_id'', pageId)]) w in
                (Waiting (fst sent), snd sent))))"

definition retrievePageBasicInfo_finish :: "json \<Rightarrow> exec_result \<Rightarrow> world \<Rightarrow> json \<times> world" where
  "retrievePageBasicInfo_finish pageId response w =
     (case response of
        Rejected e \<Rightarrow> (JObj [(''id'', pageId), (''error'', JStr (message e))], w)
      | Resolved st pageData \<Rightarrow>
          if st \<noteq> 200 then
            (JObj [(''id'', pageId), (''error'', JStr ''Failed to retrieve page''), (''status'', JNum st)], w)
          else
            (let w' = w\<lparr>pageCache := (pageCache w)(pageId \<mapsto> pageData)\<rparr> in
             if nullish pageData then
               (JObj [(''id'', pageId), (''error'', JStr (message (cannot_read pageData ''id'')))], w')
             else
               (JObj [(''id'', get ''id'' pageData),
                  (''title'', or_else (get ''title'' (get ''properties'' pageData)) (JObj [(''text'', JNull)])),
                  (''icon'', get ''icon'' pageData),
                  (''cover'', get ''cover'' pageData),
                  (''url'', get ''url'' pageData),
                  (''created_time'', get ''created_time'' pageData),
                  (''last_edited_time'', get ''last_edited_time'' pageData)], w')))"

definition retrievePageBasicInfo ::
  "host \<Rightarrow> json \<Rightarrow> RecursiveExplorationOptions \<Rightarrow> world \<Rightarrow> (error + json) \<times> world" where
  "retrievePageBasicInfo h pageId options w =
     (case retrievePageBasicInfo_start h pageId options w of
        (Ready v, w') \<Rightarrow> (v, w')
      | (Waiting response, w') \<Rightarrow>
          (let done = retrievePageBasicInfo_finish pageId response w' in (Inr (fst done), snd done)))"

text \<open>\<^verbatim>\<open>retrieveDatabase\<close>, lines 845 to 877, with its \<^verbatim>\<open>await\<close> at line 863. It never rejects.\<close>

definition retrieveDatabase_start ::
  "host \<Rightarrow> json \<Rightarrow> RecursiveExplorationOptions \<Rightarrow> world \<Rightarrow> json started \<times> world" where
  "retrieveDatabase_start h databaseId options w =
     (case (if \<not> flag (skipCache options) then databaseCache w databaseId else None) of
        Some cached \<Rightarrow> (Ready cached, w)
      | None \<Rightarrow>
          (case findOperation h ''API-retrieve-a-database'' of
             None \<Rightarrow> (Ready (JObj [(''id'', databaseId), (''note'', JStr ''Database details not available'')]), w)
           | Some operation \<Rightarrow>
               (let sent = executeOperation h operation (JObj [(''database_id'', databaseId)]) w in
                (Waiting (fst sent), snd sent))))"

definition retrieveDatabase_finish :: "json \<Rightarrow> exec_result \<Rightarrow> world \<Rightarrow> json \<times> world" where
  "retrieveDatabase_finish databaseId response w =
     (case response of
        Rejected e \<Rightarrow> (JObj [(''id'', databaseId), (''error'', JStr ''Failed to retrieve database'')], w)
      | Resolved st databaseData \<Rightarrow>
          if st \<noteq> 200 then
            (JObj [(''id'', databaseId), (''error'', JStr ''Failed to retrieve database'')], w)
          else (databaseData, w\<lparr>databaseCache := (databaseCache w)(databaseId \<mapsto> databaseData)\<rparr>))"

definition retrieveDatabase ::
  "host \<Rightarrow> json \<Rightarrow> RecursiveExplorationOptions \<Rightarrow> world \<Rightarrow> json \<times> world" where
  "retrieveDatabase h databaseId options w =
     (case retrieveDatabase_start h databaseId options w of
        (Ready v, w') \<Rightarrow> (v, w')
      | (Waiting response, w') \<Rightarrow> retrieveDatabase_finish databaseId response w')"

text \<open>
  \<^verbatim>\<open>retrieveComments\<close>, lines 880 to 915, with its \<^verbatim>\<open>await\<close> at line 892. The
  \<^verbatim>\<open>forEach\<close> of line 903 caches the comments one by one; it throws on a
  \<^verbatim>\<open>results\<close> that is no array and on a comment that is \<^verbatim>\<open>null\<close>, and the
  \<^verbatim>\<open>catch\<close> then answers with no results. The comments cached before the throw stay
  cached. Whatever fails, the call answers with an empty list of results and records
  no error.
\<close>

fun cache_comments :: "json list \<Rightarrow> world \<Rightarrow> bool \<times> world" where
  "cache_comments [] w = (True, w)"
| "cache_comments (comment # rest) w =
     (if nullish comment then (False, w)
      else if truthy (get ''id'' comment) then
        cache_comments rest (w\<lparr>commentCache := (commentCache w)(get ''id'' comment \<mapsto> comment)\<rparr>)
      else cache_comments rest w)"

definition no_comments :: json where
  "no_comments = JObj [(''results'', JArr [])]"

definition retrieveComments_start ::
  "host \<Rightarrow> json \<Rightarrow> RecursiveExplorationOptions \<Rightarrow> world \<Rightarrow> json started \<times> world" where
  "retrieveComments_start h blockId options w =
     (case findOperation h ''API-retrieve-a-comment'' of
        None \<Rightarrow> (Ready no_comments, w)
      | Some operation \<Rightarrow>
          (let sent = executeOperation h operation (JObj [(''block_id'', blockId)]) w in
           (Waiting (fst sent), snd sent)))"

definition retrieveComments_finish :: "exec_result \<Rightarrow> world \<Rightarrow> json \<times> world" where
  "retrieveComments_finish response w =
     (case response of
        Rejected e \<Rightarrow> (no_comments, w)
      | Resolved st commentsData \<Rightarrow>
          if st \<noteq> 200 then (no_comments, w)
          else if nullish commentsData then (no_comments, w)
          else if \<not> truthy (get ''results'' commentsData) then (commentsData, w)
          else
            (case get ''results'' commentsData of
               JArr comments \<Rightarrow>
                 (let cached = cache_comments comments w in
                  (if fst cached then commentsData else no_comments, snd cached))
             | _ \<Rightarrow> (no_comments, w)))"

definition retrieveComments ::
  "host \<Rightarrow> json \<Rightarrow> RecursiveExplorationOptions \<Rightarrow> world \<Rightarrow> json \<times> world" where
  "retrieveComments h blockId options w =
     (case retrieveComments_start h blockId options w of
        (Ready v, w') \<Rightarrow> (v, w')
      | (Waiting response, w') \<Rightarrow> retrieveComments_finish response w')"

section \<open>Property enrichment: \<^verbatim>\<open>enrichPageProperties\<close>\<close>

text \<open>
  Lines 931 to 991: the task of one property with a truthy identifier, which the
  loop starts with the cache key in hand. Up to its \<^verbatim>\<open>await\<close> (line 957) the task
  serves the detail from the cache, writes the stub of a property it does not
  support, gives up without writing (the operation is not in the lookup table, which
  records nothing on the property), or sends its request.
  \<^verbatim>\<open>propId.includes\<close> is the substring test of a string and the membership test of
  an array; any other value has no such method, and the \<^verbatim>\<open>catch\<close> of line 983
  records the \<^verbatim>\<open>TypeError\<close>.
\<close>

definition unsupported_stub :: json where
  "unsupported_stub = JObj [(''object'', JStr ''property_item''), (''type'', JStr ''unsupported''),
     (''unsupported'', JObj [(''type'', JStr ''special_url_format'')])]"

definition error_stub :: "(string \<times> json) list \<Rightarrow> json" where
  "error_stub info = JObj [(''object'', JStr ''property_item''), (''type'', JStr ''error''),
     (''error'', JObj info)]"

definition has_marker :: "json \<Rightarrow> error + bool" where
  "has_marker propId =
     (case propId of
        JStr s \<Rightarrow> Inr (str_includes s ''notion://'' \<or> str_includes s ''%3A%2F%2F'')
      | JArr xs \<Rightarrow> Inr (JStr ''notion://'' \<in> set xs \<or> JStr ''%3A%2F%2F'' \<in> set xs)
      | _ \<Rightarrow> Inl (type_error ''propId.includes is not a function''))"

text \<open>
  The cache key of line 930, \<^verbatim>\<open>`${pageId}:${propId}`\<close>. It is \<open>None\<close> when the
  conversion of one of the two to a text throws.
\<close>

definition cacheKey :: "json \<Rightarrow> json \<Rightarrow> string option" where
  "cacheKey pageId propId =
     (case js_string pageId of
        None \<Rightarrow> None
      | Some page_text \<Rightarrow> map_option (\<lambda>prop_text. page_text @ '':'' @ prop_text) (js_string propId))"

datatype detail_task = Written json | Skipped | Asked exec_result

definition property_start ::
  "host \<Rightarrow> json \<Rightarrow> json \<Rightarrow> string \<Rightarrow> RecursiveExplorationOptions \<Rightarrow> world \<Rightarrow> detail_task \<times> world" where
  "property_start h pageId propId key options w =
     (case (if \<not> flag (skipCache options) then propertyCache w key else None) of
        Some cached \<Rightarrow> (Written cached, w)
      | None \<Rightarrow>
          (case has_marker propId of
             Inl e \<Rightarrow> (Written (error_stub [(''message'', JStr (message e))]), w)
           | Inr True \<Rightarrow> (Written unsupported_stub, w)
           | Inr False \<Rightarrow>
               (case findOperation h ''API-retrieve-a-page-property'' of
                  None \<Rightarrow> (Skipped, w)
                | Some operation \<Rightarrow>
                    (let sent = executeOperation h operation
                                  (JObj [(''page_id'', pageId), (''property_id'', propId)]) w
                     in (Asked (fst sent), snd sent)))))"

text \<open>
  The \<^verbatim>\<open>.catch\<close> of line 960 turns a rejection into a response; lines 972 to 981
  write the detail and, for a response of status 200, cache it.
\<close>

definition property_response :: "exec_result \<Rightarrow> int \<times> json" where
  "property_response r =
     (case r of
        Resolved st d \<Rightarrow> (st, d)
      | Rejected e \<Rightarrow>
          ((case e of HttpClientError m st d \<Rightarrow> if st = 0 then 500 else st | Error n m \<Rightarrow> 500),
           error_stub [(''message'', JStr (message e))]))"

definition property_finish :: "host \<Rightarrow> string \<Rightarrow> exec_result \<Rightarrow> world \<Rightarrow> json \<times> world" where
  "property_finish h key r w =
     (let response = property_response r in
      if fst response = 200 then
        (snd response, w\<lparr>propertyCache := (propertyCache w)(key \<mapsto> snd response)\<rparr>)
      else
        (error_stub [(''status'', JNum (fst response)),
           (''message'', if snd response = JUndefined then JUndefined
                         else JStr (JSON_stringify h (snd response)))],
         w))"


text \<open>
  The loop of lines 925 to 993 over \<^verbatim>\<open>Object.entries(properties)\<close> starts the
  task of every property that has an identifier, in the order of the entries, before
  any answer is taken: every task reads the property cache as the loop found it. A
  property whose value is \<^verbatim>\<open>null\<close> makes line 926 throw, and an identifier or a
  page identifier that has no text makes line 930 throw, both outside every
  \<^verbatim>\<open>try\<close>: the call rejects, no further task is started, and the tasks started
  before go on. A started task is the name and the value of its property, its cache
  key and what its start has done.
\<close>

type_synonym property_task = "string \<times> json \<times> string \<times> detail_task"

fun start_entries ::
  "host \<Rightarrow> json \<Rightarrow> RecursiveExplorationOptions \<Rightarrow> (string \<times> json) list \<Rightarrow> world
     \<Rightarrow> (error option \<times> property_task list) \<times> world" where
  "start_entries h pageId options [] w = ((None, []), w)"
| "start_entries h pageId options (entry # rest) w =
     (if nullish (snd entry) then ((Some (cannot_read (snd entry) ''id''), []), w)
      else if \<not> truthy (get ''id'' (snd entry)) then start_entries h pageId options rest w
      else
        (case cacheKey pageId (get ''id'' (snd entry)) of
           None \<Rightarrow> ((Some cannot_convert, []), w)
         | Some key \<Rightarrow>
             (let task = property_start h pageId (get ''id'' (snd entry)) key options w;
                  more = start_entries h pageId options rest (snd task)
              in ((fst (fst more), (fst entry, snd entry, key, fst task) # snd (fst more)), snd more))))"

text \<open>
  \<^verbatim>\<open>enrichedProperties\<close> is a shallow copy, so writing \<^verbatim>\<open>details\<close> changes the
  property object itself: the entry of \<^verbatim>\<open>enrichedProperties\<close> and the entry of
  \<^verbatim>\<open>properties\<close> are the same object.
\<close>

definition write_details :: "string \<Rightarrow> json \<Rightarrow> json \<Rightarrow> (string \<times> json) list \<Rightarrow> (string \<times> json) list" where
  "write_details propName propData details enrichedProperties =
     set_field propName (JObj (set_field ''details'' details (spread propData))) enrichedProperties"

text \<open>
  The started tasks write their details: at once what the start has found, and the
  answers to the requests as they are taken up, here in the order of the requests.
  (Each task writes to its own property, so the order of the writes shows in the
  property cache only.)
\<close>

fun finish_entries ::
  "host \<Rightarrow> property_task list \<Rightarrow> (string \<times> json) list \<Rightarrow> world \<Rightarrow> (string \<times> json) list \<times> world" where
  "finish_entries h [] enrichedProperties w = (enrichedProperties, w)"
| "finish_entries h ((propName, propData, key, task) # rest) enrichedProperties w =
     (case task of
        Written details \<Rightarrow>
          finish_entries h rest (write_details propName propData details enrichedProperties) w
      | Skipped \<Rightarrow> finish_entries h rest enrichedProperties w
      | Asked r \<Rightarrow>
          (let done = property_finish h key r w in
           finish_entries h rest (write_details propName propData (fst done) enrichedProperties) (snd done)))"

text \<open>
  What the caller's \<^verbatim>\<open>properties\<close> object is after the call: an object has the
  fields of \<^verbatim>\<open>enrichedProperties\<close>, an array its values; a string or a number has
  no property object to write to.
\<close>

definition written_back :: "json \<Rightarrow> (string \<times> json) list \<Rightarrow> json" where
  "written_back properties enrichedProperties =
     (case properties of
        JObj fs \<Rightarrow> JObj enrichedProperties
      | JArr xs \<Rightarrow> JArr (map snd enrichedProperties)
      | _ \<Rightarrow> properties)"

text \<open>
  The call in its two parts. The start runs the loop. The finish gives the result
  of the call (a rejection, if the loop has thrown), the \<^verbatim>\<open>properties\<close> object as
  the tasks have changed it, and the new state.
\<close>

definition enrichPageProperties_start ::
  "host \<Rightarrow> json \<Rightarrow> json \<Rightarrow> RecursiveExplorationOptions \<Rightarrow> world
     \<Rightarrow> (error option \<times> property_task list) \<times> world" where
  "enrichPageProperties_start h pageId properties options w =
     start_entries h pageId options (spread properties) w"

definition enrichPageProperties_finish ::
  "host \<Rightarrow> json \<Rightarrow> error option \<times> property_task list \<Rightarrow> world \<Rightarrow> ((error + json) \<times> json) \<times> world" where
  "enrichPageProperties_finish h properties tasks w =
     (let done = finish_entries h (snd tasks) (spread properties) w in
      ((case fst tasks of
          Some e \<Rightarrow> Inl e
        | None \<Rightarrow> Inr (JObj (fst done)),
        written_back properties (fst done)),
       snd done))"

definition enrichPageProperties ::
  "host \<Rightarrow> json \<Rightarrow> json \<Rightarrow> RecursiveExplorationOptions \<Rightarrow> world \<Rightarrow> ((error + json) \<times> json) \<times> world" where
  "enrichPageProperties h pageId properties options w =
     (let started = enrichPageProperties_start h pageId properties options w in
      enrichPageProperties_finish h properties (fst started) (snd started))"


section \<open>Content expansion: \<^verbatim>\<open>retrieveBlocksRecursively\<close>\<close>

text \<open>
  Lines 709 to 721 treat \<^verbatim>\<open>blocks\<close>, the \<^verbatim>\<open>results\<close> of the listing or an empty
  array, as an array. A string has a length and a \<^verbatim>\<open>slice\<close>, but its slices have
  no \<^verbatim>\<open>map\<close>. An object has no \<^verbatim>\<open>slice\<close>: the loop throws when it is entered,
  which is when \<^verbatim>\<open>0 < blocks.length\<close>. A number or \<^verbatim>\<open>true\<close> has no length and
  never enters the loop. Everything thrown here is caught by the \<^verbatim>\<open>catch\<close> of
  line 788.
\<close>

definition as_blocks :: "json \<Rightarrow> error + json list" where
  "as_blocks blocks =
     (case blocks of
        JArr bs \<Rightarrow> Inr bs
      | JStr s \<Rightarrow> Inl (type_error ''batch.map is not a function'')
      | JObj fs \<Rightarrow>
          (if get ''length'' blocks = JNum 0 then Inr []
           else
             (case positive (get ''length'' blocks) of
                None \<Rightarrow> Inl cannot_convert
              | Some True \<Rightarrow> Inl (type_error ''blocks.slice is not a function'')
              | Some False \<Rightarrow> Inr []))
      | _ \<Rightarrow> Inr [])"

definition children_params :: "json \<Rightarrow> json" where
  "children_params blockId = JObj [(''block_id'', blockId), (''page_size'', JNum 100)]"

text \<open>Lines 709 and 710: the blocks of the merged listing.\<close>

definition listed_blocks :: "tool_response \<Rightarrow> error + json list" where
  "listed_blocks blocksResponse =
     (case JSON_parse blocksResponse of
        Inl e \<Rightarrow> Inl e
      | Inr blocksData \<Rightarrow>
          if nullish blocksData then Inl (cannot_read blocksData ''results'')
          else as_blocks (or_else (get ''results'' blocksData) (JArr [])))"

text \<open>
  Lines 704 to 710 from the \<^verbatim>\<open>await\<close> on: the merge of the listing goes on from
  the answer to the request for its first page, and the blocks are read from its
  response. Lines 699 to 710 as a whole look the operation up, send that request and
  go on from its answer. The result is \<open>None\<close> when the merge never returns.
\<close>

definition list_children_finish ::
  "host \<Rightarrow> operation \<Rightarrow> json \<Rightarrow> exec_result \<Rightarrow> world \<Rightarrow> ((error + json list) \<times> world) option" where
  "list_children_finish h operation blockId response w =
     (case handleBlockChildrenParallel_finish h operation (children_params blockId) response w of
        None \<Rightarrow> None
      | Some (Inl e, w') \<Rightarrow> Some (Inl e, w')
      | Some (Inr blocksResponse, w') \<Rightarrow> Some (listed_blocks blocksResponse, w'))"

definition list_children :: "host \<Rightarrow> json \<Rightarrow> world \<Rightarrow> ((error + json list) \<times> world) option" where
  "list_children h blockId w =
     (case findOperation h ''API-get-block-children'' of
        None \<Rightarrow> Some (Inl (Error ''Error'' ''API-get-block-children method not found.''), w)
      | Some operation \<Rightarrow>
          (let sent = executeOperation h operation (children_params blockId) w in
           list_children_finish h operation blockId (fst sent) (snd sent)))"

text \<open>
  \<^verbatim>\<open>blocks.slice(i, i + batchSize)\<close> on an array, for integers: a negative index
  counts from the end, and both ends are kept within the array.
\<close>

definition slice :: "'a list \<Rightarrow> int \<Rightarrow> int \<Rightarrow> 'a list" where
  "slice xs a b =
     (let n = int (length xs);
          lo = (if a < 0 then max (n + a) 0 else min a n);
          hi = (if b < 0 then max (n + b) 0 else min b n)
      in take (nat (hi - lo)) (drop (nat lo) xs))"

definition failed_node :: "json \<Rightarrow> error \<Rightarrow> json" where
  "failed_node ident e =
     JObj [(''id'', ident), (''error'', JStr (message e)), (''retrievalFailed'', JBool True)]"

definition depth_note :: json where
  "depth_note = JStr ''Maximum recursion depth reached''"

text \<open>
  \<^verbatim>\<open>retrieveBlocksRecursively\<close> up to its \<^verbatim>\<open>await\<close> (lines 691 to 704): at the
  depth limit and without the operation the call is settled at once; otherwise the
  request for the first page of the listing is sent.
\<close>

definition retrieveBlocksRecursively_start ::
  "host \<Rightarrow> json \<Rightarrow> RecursiveExplorationOptions \<Rightarrow> nat \<Rightarrow> world \<Rightarrow> json list started \<times> world" where
  "retrieveBlocksRecursively_start h blockId options currentDepth w =
     (if num_or (maxDepth options) 5 \<le> int currentDepth then (Ready [JObj [(''note'', depth_note)]], w)
      else
        (case findOperation h ''API-get-block-children'' of
           None \<Rightarrow>
             (Ready [failed_node blockId (Error ''Error'' ''API-get-block-children method not found.'')], w)
         | Some operation \<Rightarrow>
             (let sent = executeOperation h operation (children_params blockId) w in
              (Waiting (fst sent), snd sent))))"

text \<open>
  Lines 725 to 773: the task of one block of a batch, up to its \<^verbatim>\<open>await\<close> of line
  777. It caches the block and starts up to three calls, for the children, for the
  database and for the page of the block. It rejects only when the block is
  \<^verbatim>\<open>null\<close>, before it has started anything. In \<^verbatim>\<open>block[block.type]\<close> the type is
  one of two strings, by the test before it.
\<close>

definition is_database_block :: "json \<Rightarrow> bool" where
  "is_database_block block =
     (get ''type'' block = JStr ''child_database'' \<or> get ''type'' block = JStr ''linked_database'')"

definition type_field :: "json \<Rightarrow> json" where
  "type_field block = (case get ''type'' block of JStr t \<Rightarrow> get t block | _ \<Rightarrow> JUndefined)"

record block_task =
  the_block :: json
  children_task :: "json list started option"
  database_task :: "json started option"
  page_task :: "(error + json) started option"

definition start_block ::
  "host \<Rightarrow> RecursiveExplorationOptions \<Rightarrow> nat \<Rightarrow> json \<Rightarrow> world \<Rightarrow> (error + block_task) \<times> world" where
  "start_block h options currentDepth block w =
     (if nullish block then (Inl (cannot_read block ''id''), w)
      else
        (let w0 = w\<lparr>blockCache := (blockCache w)(get ''id'' block \<mapsto> block)\<rparr>;
             children =
               (if truthy (get ''has_children'' block) then
                  map_prod Some id
                    (retrieveBlocksRecursively_start h (get ''id'' block) options (currentDepth + 1) w0)
                else (None, w0));
             databaseId = get ''database_id'' (type_field block);
             database =
               (if flag (includeDatabases options) \<and> is_database_block block \<and> truthy databaseId then
                  map_prod Some id (retrieveDatabase_start h databaseId options (snd children))
                else (None, snd children));
             page =
               (if get ''type'' block = JStr ''child_page''
                   \<and> int currentDepth < num_or (maxDepth options) 5 - 1 then
                  map_prod Some id (retrievePageBasicInfo_start h (get ''id'' block) options (snd database))
                else (None, snd database))
         in (Inr \<lparr>the_block = block, children_task = fst children, database_task = fst database,
                   page_task = fst page\<rparr>,
             snd page)))"

text \<open>
  The fields that the three calls write into the copy of the block when they
  settle (lines 737, 753, 767 and 770). The \<^verbatim>\<open>.catch\<close> of the children and of the
  database never run, since neither \<^verbatim>\<open>retrieveBlocksRecursively\<close> nor
  \<^verbatim>\<open>retrieveDatabase\<close> rejects.
\<close>

definition with_page_info :: "error + json \<Rightarrow> (string \<times> json) list \<Rightarrow> (string \<times> json) list" where
  "with_page_info pageInfo enrichedBlock =
     (case pageInfo of
        Inr info \<Rightarrow> set_field ''page_info'' info enrichedBlock
      | Inl e \<Rightarrow> set_field ''page_info_error'' (JObj [(''message'', JStr (error_string e))]) enrichedBlock)"

definition settled_fields :: "block_task \<Rightarrow> (string \<times> json) list" where
  "settled_fields task =
     (let with_children =
            (case children_task task of
               Some (Ready childBlocks) \<Rightarrow> set_field ''children'' (JArr childBlocks) (spread (the_block task))
             | _ \<Rightarrow> spread (the_block task));
          with_database =
            (case database_task task of
               Some (Ready database) \<Rightarrow> set_field ''database'' database with_children
             | _ \<Rightarrow> with_children)
      in (case page_task task of
            Some (Ready pageInfo) \<Rightarrow> with_page_info pageInfo with_database
          | _ \<Rightarrow> with_database))"

text \<open>
  The rest of the task of a block, given the rest of the call for the children. The
  calls that were settled when the task gave control back have written their fields
  by then, in the order in which they were started. The answers are then taken up:
  the database, the page, and last the listing of the children, whose call goes on
  to crawl them.
\<close>

definition finish_block ::
  "(json \<Rightarrow> exec_result \<Rightarrow> world \<Rightarrow> json list outcome) \<Rightarrow> block_task \<Rightarrow> world \<Rightarrow> json outcome" where
  "finish_block children_finish task w =
     (let block = the_block task;
          with_database =
            (case database_task task of
               Some (Waiting response) \<Rightarrow>
                 (let database = retrieveDatabase_finish (get ''database_id'' (type_field block)) response w in
                  (set_field ''database'' (fst database) (settled_fields task), snd database))
             | _ \<Rightarrow> (settled_fields task, w));
          with_page =
            (case page_task task of
               Some (Waiting response) \<Rightarrow>
                 (let pageInfo = retrievePageBasicInfo_finish (get ''id'' block) response (snd with_database) in
                  (set_field ''page_info'' (fst pageInfo) (fst with_database), snd pageInfo))
             | _ \<Rightarrow> with_database)
      in (case children_task task of
            Some (Waiting response) \<Rightarrow>
              (case children_finish (get ''id'' block) response (snd with_page) of
                 Settled childBlocks w' \<Rightarrow>
                   Settled (JObj (set_field ''children'' (JArr childBlocks) (fst with_page))) w'
               | Pending \<Rightarrow> Pending
               | Stuck \<Rightarrow> Stuck)
          | _ \<Rightarrow> Settled (JObj (fst with_page)) (snd with_page)))"

text \<open>
  \<^verbatim>\<open>Promise.all(batch.map(task))\<close>: the task of every block of the batch is
  started, in the order of the batch, and then the tasks are finished. The results
  keep the order of the batch, and the first rejection rejects the whole. A task
  rejects when it is started or not at all; the tasks of the other blocks go on
  then, and the model lets them come to their end before the caller goes on.
\<close>

fun start_batch ::
  "(json \<Rightarrow> world \<Rightarrow> (error + 't) \<times> world) \<Rightarrow> json list \<Rightarrow> world \<Rightarrow> (error + 't) list \<times> world" where
  "start_batch start [] w = ([], w)"
| "start_batch start (block # batch) w =
     (let first = start block w;
          more = start_batch start batch (snd first)
      in (fst first # fst more, snd more))"

fun finish_batch ::
  "('t \<Rightarrow> world \<Rightarrow> json outcome) \<Rightarrow> (error + 't) list \<Rightarrow> world \<Rightarrow> (error + json) list outcome" where
  "finish_batch finish [] w = Settled [] w"
| "finish_batch finish (Inl e # tasks) w =
     (case finish_batch finish tasks w of
        Settled results w' \<Rightarrow> Settled (Inl e # results) w'
      | Pending \<Rightarrow> Pending
      | Stuck \<Rightarrow> Stuck)"
| "finish_batch finish (Inr task # tasks) w =
     (case finish task w of
        Settled v w1 \<Rightarrow>
          (case finish_batch finish tasks w1 of
             Settled results w2 \<Rightarrow> Settled (Inr v # results) w2
           | Pending \<Rightarrow> Pending
           | Stuck \<Rightarrow> Stuck)
      | Pending \<Rightarrow> Pending
      | Stuck \<Rightarrow> Stuck)"

fun promise_all :: "(error + 'a) list \<Rightarrow> error + 'a list" where
  "promise_all [] = Inr []"
| "promise_all (Inl e # results) = Inl e"
| "promise_all (Inr v # results) = (case promise_all results of Inl e \<Rightarrow> Inl e | Inr vs \<Rightarrow> Inr (v # vs))"

definition promise_all_map ::
  "(json \<Rightarrow> world \<Rightarrow> (error + 't) \<times> world) \<Rightarrow> ('t \<Rightarrow> world \<Rightarrow> json outcome) \<Rightarrow> json list \<Rightarrow> world
     \<Rightarrow> (error + json list) outcome" where
  "promise_all_map start finish batch w =
     (let started = start_batch start batch w in
      case finish_batch finish (fst started) (snd started) of
        Settled results w' \<Rightarrow> Settled (promise_all results) w'
      | Pending \<Rightarrow> Pending
      | Stuck \<Rightarrow> Stuck)"

text \<open>
  The loop of lines 720 to 785, \<^verbatim>\<open>for (let i = 0; i < blocks.length; i +=
  batchSize)\<close>, each turn of which awaits its batch. With a step that is 0, or with
  a negative step once \<open>i\<close> is negative, every batch from then on is empty and
  \<open>i\<close> stays below the length: each turn awaits a settled promise, and the loop
  never gives the event loop back.
\<close>

function for_batches ::
  "(json \<Rightarrow> world \<Rightarrow> (error + 't) \<times> world) \<Rightarrow> ('t \<Rightarrow> world \<Rightarrow> json outcome) \<Rightarrow> int \<Rightarrow> json list \<Rightarrow> int
     \<Rightarrow> json list \<Rightarrow> world \<Rightarrow> (error + json list) outcome" where
  "for_batches start finish step blocks i enrichedBlocks w =
     (if i < int (length blocks) then
        (if step = 0 \<or> (step < 0 \<and> i < 0) then Stuck
         else
           (case promise_all_map start finish (slice blocks i (i + step)) w of
              Settled (Inl e) w' \<Rightarrow> Settled (Inl e) w'
            | Settled (Inr batchResults) w' \<Rightarrow>
                for_batches start finish step blocks (i + step) (enrichedBlocks @ batchResults) w'
            | Pending \<Rightarrow> Pending
            | Stuck \<Rightarrow> Stuck))
      else Settled (Inr enrichedBlocks) w)"
  by pat_completeness auto
termination
  by (relation "measure (\<lambda>(start, finish, step, blocks, i, enrichedBlocks, w).
        if 0 < step then nat (int (length blocks) - i) else nat (i + 1))") auto

declare for_batches.simps [simp del]

text \<open>
  \<^verbatim>\<open>retrieveBlocksRecursively\<close> from its \<^verbatim>\<open>await\<close> on (lines 704 to 795), with
  the answer to the request for the first page: the merge of the listing, then the
  batches. The tests of lines 693 and 699 stand before the request in the code;
  the call goes on from the request only when both have passed. The recursion goes
  one level deeper for the children of a block and stops at \<^verbatim>\<open>maxDepth\<close>.
\<close>

function retrieveBlocksRecursively_finish ::
  "host \<Rightarrow> json \<Rightarrow> RecursiveExplorationOptions \<Rightarrow> nat \<Rightarrow> exec_result \<Rightarrow> world \<Rightarrow> json list outcome" where
  "retrieveBlocksRecursively_finish h blockId options currentDepth response w =
     (if num_or (maxDepth options) 5 \<le> int currentDepth then Settled [JObj [(''note'', depth_note)]] w
      else
        (case findOperation h ''API-get-block-children'' of
           None \<Rightarrow>
             Settled [failed_node blockId (Error ''Error'' ''API-get-block-children method not found.'')] w
         | Some operation \<Rightarrow>
             (case list_children_finish h operation blockId response w of
                None \<Rightarrow> Pending
              | Some (Inl e, w1) \<Rightarrow> Settled [failed_node blockId e] w1
              | Some (Inr blocks, w1) \<Rightarrow>
                  if blocks = [] then Settled [] w1
                  else
                    (case for_batches (start_block h options currentDepth)
                            (finish_block (\<lambda>childId answer s.
                               retrieveBlocksRecursively_finish h childId options (currentDepth + 1) answer s))
                            (num_or (batchSize options) 10) blocks 0 [] w1 of
                       Settled (Inl e) w2 \<Rightarrow> Settled [failed_node blockId e] w2
                     | Settled (Inr enrichedBlocks) w2 \<Rightarrow> Settled enrichedBlocks w2
                     | Pending \<Rightarrow> Pending
                     | Stuck \<Rightarrow> Stuck))))"
  by pat_completeness auto
termination
  by (relation "measure (\<lambda>(h, blockId, options, currentDepth, response, w).
        nat (num_or (maxDepth options) 5 - int currentDepth))") auto

declare retrieveBlocksRecursively_finish.simps [simp del]

text \<open>The whole call: its start, and its finish when a request was sent.\<close>

definition retrieveBlocksRecursively ::
  "host \<Rightarrow> json \<Rightarrow> RecursiveExplorationOptions \<Rightarrow> nat \<Rightarrow> world \<Rightarrow> json list outcome" where
  "retrieveBlocksRecursively h blockId options currentDepth w =
     (case retrieveBlocksRecursively_start h blockId options currentDepth w of
        (Ready blocks, w') \<Rightarrow> Settled blocks w'
      | (Waiting response, w') \<Rightarrow>
          retrieveBlocksRecursively_finish h blockId options currentDepth response w')"




section \<open>The crawl of a page: \<^verbatim>\<open>retrievePageRecursively\<close>\<close>

text \<open>
  Time is not modelled; what a timer does is. Line 577 starts one timer per call,
  and the call races it twice: against the fetch of the page (line 601) and against
  all the expansion tasks together (line 643). The two flags say whether the timer
  fires first in each race; the second flag is read when the tasks settle, or when
  the event loop gets stuck in them. Tasks that stay pending for ever lose their
  race.

  The promise of the timer rejects when the timer fires, whoever has won. A race
  gives it a handler. A call that returns without having raced it leaves the
  rejection to nobody.
\<close>

record timing =
  timer_before_fetch :: bool
  timer_before_tasks :: bool

definition timeout_error :: "RecursiveExplorationOptions \<Rightarrow> error" where
  "timeout_error options =
     Error ''Error'' (''Operation timed out after '' @ show_opt (timeoutMs options) @ ''ms'')"

definition unraced :: "RecursiveExplorationOptions \<Rightarrow> world \<Rightarrow> world" where
  "unraced options w = w\<lparr>unhandled := unhandled w @ [timeout_error options]\<rparr>"

text \<open>
  Lines 588 to 619: the page comes from the cache or from the HTTP client. The step
  finds no operation and throws before the race, throws in the race, returns the
  node of a failed fetch, or goes on with the page data, from the cache or fetched.
  When the timer wins the race the response is dropped and nothing is cached.
\<close>

datatype page_step = Missing | Thrown error | Returned json | Cached json | Fetched json

definition page_params :: "json \<Rightarrow> json" where
  "page_params pageId = JObj [(''page_id'', pageId)]"

definition resolve_page ::
  "host \<Rightarrow> timing \<Rightarrow> json \<Rightarrow> RecursiveExplorationOptions \<Rightarrow> world \<Rightarrow> page_step \<times> world" where
  "resolve_page h tm pageId options w =
     (case (if \<not> flag (skipCache options) then pageCache w pageId else None) of
        Some cached \<Rightarrow> (Cached cached, w)
      | None \<Rightarrow>
          (case findOperation h ''API-retrieve-a-page'' of
             None \<Rightarrow> (Missing, w)
           | Some operation \<Rightarrow>
               (let sent = executeOperation h operation (page_params pageId) w in
                if timer_before_fetch tm then (Thrown (timeout_error options), snd sent)
                else
                  (case fst sent of
                     Rejected e \<Rightarrow> (Thrown e, snd sent)
                   | Resolved st d \<Rightarrow>
                       if st \<noteq> 200 then
                         (Returned (JObj [(''id'', pageId), (''error'', JStr ''Failed to retrieve page''),
                            (''status'', JNum st), (''details'', d)]), snd sent)
                       else
                         (Fetched d, (snd sent)\<lparr>pageCache := (pageCache (snd sent))(pageId \<mapsto> d)\<rparr>)))))"

text \<open>
  Lines 621 to 640 start the three tasks, each up to its first \<^verbatim>\<open>await\<close>: the
  blocks, the property details when the option is set and the page has properties,
  the comments when the option is set.
\<close>

definition wants_properties :: "RecursiveExplorationOptions \<Rightarrow> json \<Rightarrow> bool" where
  "wants_properties options pageData =
     (flag (includeProperties options) \<and> truthy (get ''properties'' pageData))"

record page_tasks =
  blocks_task :: "json list started"
  properties_task :: "(error option \<times> property_task list) option"
  comments_task :: "json started option"

definition start_tasks ::
  "host \<Rightarrow> json \<Rightarrow> json \<Rightarrow> RecursiveExplorationOptions \<Rightarrow> nat \<Rightarrow> world \<Rightarrow> page_tasks \<times> world" where
  "start_tasks h pageId pageData options currentDepth w =
     (let blocks = retrieveBlocksRecursively_start h pageId options (currentDepth + 1) w;
          properties =
            (if wants_properties options pageData then
               map_prod Some id
                 (enrichPageProperties_start h pageId (get ''properties'' pageData) options (snd blocks))
             else (None, snd blocks));
          cmts =
            (if flag (includeComments options) then
               map_prod Some id (retrieveComments_start h pageId options (snd properties))
             else (None, snd properties))
      in (\<lparr>blocks_task = fst blocks, properties_task = fst properties, comments_task = fst cmts\<rparr>,
          snd cmts))"

text \<open>The rejection of the property task, which is there as soon as the task is started.\<close>

definition properties_reject :: "page_tasks \<Rightarrow> error option" where
  "properties_reject tasks = (case properties_task tasks of Some started \<Rightarrow> fst started | None \<Rightarrow> None)"

text \<open>
  The tasks are finished: the details of the properties, the comments, and last the
  blocks, whose task goes on to crawl them. Property enrichment changes the
  property objects of the page in place; the page data in hand and, while it is
  still the cached object, the cache entry see the change.
\<close>

definition with_properties :: "json \<Rightarrow> json \<Rightarrow> json" where
  "with_properties pageData properties = JObj (set_field ''properties'' properties (spread pageData))"

record expansion =
  blocksData :: "json list"
  enrichedProperties :: "error + json"
  comments :: json
  pageData' :: json

definition finish_tasks ::
  "host \<Rightarrow> json \<Rightarrow> json \<Rightarrow> RecursiveExplorationOptions \<Rightarrow> nat \<Rightarrow> page_tasks \<Rightarrow> world \<Rightarrow> expansion outcome" where
  "finish_tasks h pageId pageData options currentDepth tasks w =
     (let props =
            (case properties_task tasks of
               Some started \<Rightarrow>
                 (let enriched = enrichPageProperties_finish h (get ''properties'' pageData) started w;
                      changed = with_properties pageData (snd (fst enriched))
                  in (fst (fst enriched), changed,
                      (if pageCache (snd enriched) pageId = Some pageData
                       then (snd enriched)\<lparr>pageCache := (pageCache (snd enriched))(pageId \<mapsto> changed)\<rparr>
                       else snd enriched)))
             | None \<Rightarrow> (Inr JNull, pageData, w));
          cmts =
            (case comments_task tasks of
               Some (Ready v) \<Rightarrow> (v, snd (snd props))
             | Some (Waiting response) \<Rightarrow> retrieveComments_finish response (snd (snd props))
             | None \<Rightarrow> (JNull, snd (snd props)))
      in (case (case blocks_task tasks of
                  Ready blocks \<Rightarrow> Settled blocks (snd cmts)
                | Waiting response \<Rightarrow>
                    retrieveBlocksRecursively_finish h pageId options (currentDepth + 1) response (snd cmts)) of
            Settled blocks w' \<Rightarrow>
              Settled \<lparr>blocksData = blocks, enrichedProperties = fst props, comments = fst cmts,
                        pageData' = fst (snd props)\<rparr> w'
          | Pending \<Rightarrow> Pending
          | Stuck \<Rightarrow> Stuck))"

text \<open>
  Lines 646 to 668: the results are put into a copy of the page data. The comments
  come from \<^verbatim>\<open>retrieveComments\<close>, whose \<^verbatim>\<open>results\<close> are an array or falsy.
\<close>

definition has_comments :: "json \<Rightarrow> bool" where
  "has_comments cs =
     (truthy cs \<and> (case get ''results'' cs of JArr xs \<Rightarrow> xs \<noteq> [] | _ \<Rightarrow> False))"

definition enriched_page :: "RecursiveExplorationOptions \<Rightarrow> json \<Rightarrow> expansion \<Rightarrow> json \<Rightarrow> json" where
  "enriched_page options pageData x props =
     (let with_content = set_field ''content'' (JArr (blocksData x)) (spread (pageData' x));
          with_details =
            (if wants_properties options pageData \<and> truthy props
             then set_field ''detailed_properties'' props with_content else with_content);
          with_comments =
            (if flag (includeComments options) \<and> has_comments (comments x)
             then set_field ''comments'' (comments x) with_details else with_details)
      in JObj with_comments)"

text \<open>
  Lines 621 to 668, with the page data in hand; \<open>raced\<close> says whether the timer
  was raced against the fetch. The result is \<open>None\<close> when the call never returns,
  and the state is \<open>None\<close> when the proxy never comes to rest.

  A page that is \<^verbatim>\<open>null\<close> makes line 630 throw when the properties are asked for,
  after the blocks task was started and before the race; without the properties
  the test of line 630 does not read the page, and the crawl goes on. A rejection
  of the property task rejects the race of line 643 before any timer can fire. In
  both cases the tasks that were started go on after the call has returned.

  When the tasks settle, the second flag of the timer says who has won the race.
  When they stay pending the timer wins. When the event loop gets stuck in them the
  call returns only if the timer has fired before.
\<close>

definition expand_page ::
  "host \<Rightarrow> timing \<Rightarrow> json \<Rightarrow> json \<Rightarrow> RecursiveExplorationOptions \<Rightarrow> nat \<Rightarrow> bool \<Rightarrow> world
     \<Rightarrow> (error + json) option \<times> world option" where
  "expand_page h tm pageId pageData options currentDepth raced w =
     (if nullish pageData \<and> flag (includeProperties options) then
        (Some (Inl (cannot_read pageData ''properties'')),
         map_option (\<lambda>w'. if raced then w' else unraced options w')
           (at_rest (retrieveBlocksRecursively h pageId options (currentDepth + 1) w)))
      else
        (let started = start_tasks h pageId pageData options currentDepth w;
             finished = finish_tasks h pageId pageData options currentDepth (fst started) (snd started)
         in (case properties_reject (fst started) of
               Some e \<Rightarrow> (Some (Inl e), at_rest finished)
             | None \<Rightarrow>
                 (case finished of
                    Pending \<Rightarrow> (Some (Inl (timeout_error options)), None)
                  | Stuck \<Rightarrow>
                      (if timer_before_tasks tm then Some (Inl (timeout_error options)) else None, None)
                  | Settled x w' \<Rightarrow>
                      if timer_before_tasks tm then (Some (Inl (timeout_error options)), Some w')
                      else
                        (case enrichedProperties x of
                           Inl e \<Rightarrow> (Some (Inl e), Some w')
                         | Inr props \<Rightarrow> (Some (Inr (enriched_page options pageData x props)), Some w'))))))"

text \<open>
  The body of the \<^verbatim>\<open>try\<close>, lines 582 to 668. At the depth limit and without the
  operation the call leaves before any race.
\<close>

definition max_depth_node :: "json \<Rightarrow> json" where
  "max_depth_node pageId = JObj [(''id'', pageId), (''note'', depth_note)]"

definition retrievePage_try ::
  "host \<Rightarrow> timing \<Rightarrow> json \<Rightarrow> RecursiveExplorationOptions \<Rightarrow> nat \<Rightarrow> world
     \<Rightarrow> (error + json) option \<times> world option" where
  "retrievePage_try h tm pageId options currentDepth w =
     (if num_or (maxDepth options) 5 \<le> int currentDepth then
        (Some (Inr (max_depth_node pageId)), Some (unraced options w))
      else
        (case resolve_page h tm pageId options w of
           (Missing, w1) \<Rightarrow>
             (Some (Inl (Error ''Error'' ''API-retrieve-a-page method not found.'')),
              Some (unraced options w1))
         | (Thrown e, w1) \<Rightarrow> (Some (Inl e), Some w1)
         | (Returned node, w1) \<Rightarrow> (Some (Inr node), Some w1)
         | (Cached pageData, w1) \<Rightarrow> expand_page h tm pageId pageData options currentDepth False w1
         | (Fetched pageData, w1) \<Rightarrow> expand_page h tm pageId pageData options currentDepth True w1))"

text \<open>The \<^verbatim>\<open>catch\<close>, lines 669 to 686.\<close>

definition timeout_node :: "json \<Rightarrow> RecursiveExplorationOptions \<Rightarrow> json" where
  "timeout_node pageId options =
     JObj [(''id'', pageId), (''error'', JStr ''Operation timed out''), (''partial_results'', JBool True),
       (''note'', JStr (''Processing exceeded timeout limit ('' @ show_opt (timeoutMs options) @ ''ms)''))]"

definition retrievePage_catch :: "json \<Rightarrow> RecursiveExplorationOptions \<Rightarrow> error \<Rightarrow> json" where
  "retrievePage_catch pageId options e =
     (if str_includes (message e) ''timed out'' then timeout_node pageId options
      else failed_node pageId e)"

definition retrievePageRecursively ::
  "host \<Rightarrow> timing \<Rightarrow> json \<Rightarrow> RecursiveExplorationOptions \<Rightarrow> nat \<Rightarrow> world
     \<Rightarrow> (error + json) option \<times> world option" where
  "retrievePageRecursively h tm pageId options currentDepth w =
     (case retrievePage_try h tm pageId options currentDepth w of
        (Some (Inl e), w') \<Rightarrow> (Some (Inr (retrievePage_catch pageId options e)), w')
      | (result, w') \<Rightarrow> (result, w'))"

section \<open>The aggregate operation: \<^verbatim>\<open>handleOnePagerRequest\<close>\<close>

text \<open>
  Lines 508 to 571, for arguments that are an object. The clock gives the two
  readings of \<^verbatim>\<open>Date.now()\<close> and the text of \<^verbatim>\<open>new Date().toISOString()\<close>. The
  result is \<open>None\<close> when the call never returns.
\<close>

record clock =
  startTime :: int
  endTime :: int
  isoString :: string

definition one_pager_options :: "one_pager_params \<Rightarrow> RecursiveExplorationOptions" where
  "one_pager_options params =
     \<lparr>maxDepth = Some (num_or (maxDepth params) 5),
      includeDatabases = Some (includeDatabases params \<noteq> Some False),
      includeComments = Some (includeComments params \<noteq> Some False),
      includeProperties = Some (includeProperties params \<noteq> Some False),
      maxParallel = Some (num_or (maxParallel params) 15),
      skipCache = Some (flag (skipCache params)),
      batchSize = Some (num_or (batchSize params) 10),
      timeoutMs = Some (num_or (timeoutMs params) 60000)\<rparr>"

definition json_of_num :: "int option \<Rightarrow> json" where
  "json_of_num x = (case x of None \<Rightarrow> JUndefined | Some n \<Rightarrow> JNum n)"

definition json_of_flag :: "bool option \<Rightarrow> json" where
  "json_of_flag x = (case x of None \<Rightarrow> JUndefined | Some b \<Rightarrow> JBool b)"

definition meta :: "clock \<Rightarrow> RecursiveExplorationOptions \<Rightarrow> json" where
  "meta clk options =
     JObj [(''processingTimeMs'', JNum (endTime clk - startTime clk)),
       (''retrievedAt'', JStr (isoString clk)),
       (''options'', JObj [(''maxDepth'', json_of_num (maxDepth options)),
          (''includeDatabases'', json_of_flag (includeDatabases options)),
          (''includeComments'', json_of_flag (includeComments options)),
          (''includeProperties'', json_of_flag (includeProperties options))])]"

definition errorResponse :: "clock \<Rightarrow> error \<Rightarrow> json" where
  "errorResponse clk e =
     JObj [(''status'', JStr ''error''), (''message'', JStr (message e)),
       (''code'', (case e of HttpClientError m st d \<Rightarrow> JNum st | Error n m \<Rightarrow> JNum 500)),
       (''details'', (case e of HttpClientError m st d \<Rightarrow> d | Error n m \<Rightarrow> JUndefined)),
       (''timestamp'', JStr (isoString clk))]"

definition handleOnePagerRequest ::
  "host \<Rightarrow> timing \<Rightarrow> clock \<Rightarrow> one_pager_params \<Rightarrow> world
     \<Rightarrow> (error + tool_response) option \<times> world option" where
  "handleOnePagerRequest h tm clk params w =
     (let options = one_pager_options params in
      case retrievePageRecursively h tm (page_id params) options 0 w of
        (Some (Inr pageData), w') \<Rightarrow>
          (Some (Inr (Text (JObj (set_field ''_meta'' (meta clk options) (spread pageData))))), w')
      | (Some (Inl e), w') \<Rightarrow> (Some (Inr (Text (errorResponse clk e))), w')
      | (None, w') \<Rightarrow> (None, w'))"


section \<open>Counting the calls for a page\<close>

text \<open>
  The request that retrieves a page, \<^verbatim>\<open>executeOperation(operation, {page_id:
  pageId})\<close>, and the calls made between two states of the proxy.
\<close>

definition page_request :: "operation \<Rightarrow> json \<Rightarrow> request" where
  "page_request operation pageId = (operation, page_params pageId)"

definition calls_since :: "world \<Rightarrow> world \<Rightarrow> request list" where
  "calls_since w w' = drop (length (calls w)) (calls w')"

text \<open>
  What every step of a crawl keeps, for a page \<open>k\<close> and the operation that
  retrieves pages: the log of calls only grows, a page in the page cache stays
  there, and while the cache is read (\<open>sc\<close>, the option \<^verbatim>\<open>skipCache\<close>, is not
  set) no request for a cached page is made.
\<close>

definition quiet :: "operation \<Rightarrow> json \<Rightarrow> bool \<Rightarrow> world \<Rightarrow> world \<Rightarrow> bool" where
  "quiet operation k sc w w' =
     ((\<exists>new. calls w' = calls w @ new
          \<and> (\<not> sc \<and> pageCache w k \<noteq> None \<longrightarrow> page_request operation k \<notin> set new))
      \<and> (pageCache w k \<noteq> None \<longrightarrow> pageCache w' k \<noteq> None))"


section \<open>Scenarios\<close>

text \<open>
  Concrete hosts and states on which the theorems below are run. The state a fresh
  proxy starts in has empty caches and no call made.
\<close>

definition fresh :: world where
  "fresh = \<lparr>calls = [], pageCache = Map.empty, blockCache = Map.empty,
     databaseCache = Map.empty, commentCache = Map.empty, propertyCache = Map.empty, unhandled = []\<rparr>"

definition children_op :: operation where
  "children_op = Operation ''get'' ''/v1/blocks/{block_id}/children''"

definition plain_block :: "string \<Rightarrow> json" where
  "plain_block i = JObj [(''object'', JStr ''block''), (''id'', JStr i), (''type'', JStr ''paragraph''),
     (''has_children'', JBool False)]"

definition listing :: "json list \<Rightarrow> json \<Rightarrow> json" where
  "listing rs c = JObj [(''object'', JStr ''list''), (''results'', JArr rs), (''next_cursor'', c),
     (''has_more'', JBool (truthy c))]"

definition root_params :: json where
  "root_params = JObj [(''block_id'', JStr ''root''), (''page_size'', JNum 100)]"

text \<open>A listing of three pages of sizes 2, 2 and 1, the same at every call.\<close>

definition P1 :: "json list" where "P1 = [plain_block ''a'', plain_block ''b'']"
definition P2 :: "json list" where "P2 = [plain_block ''c'', plain_block ''d'']"
definition P3 :: "json list" where "P3 = [plain_block ''e'']"

definition three_pages :: "request list \<Rightarrow> operation \<Rightarrow> json \<Rightarrow> exec_result" where
  "three_pages hist operation params =
     (if get ''start_cursor'' params = JUndefined then Resolved 200 (listing P1 (JStr ''cursor2''))
      else if get ''start_cursor'' params = JStr ''cursor2'' then Resolved 200 (listing P2 (JStr ''cursor3''))
      else if get ''start_cursor'' params = JStr ''cursor3'' then Resolved 200 (listing P3 JNull)
      else Resolved 400 JNull)"

definition three_page_host :: host where
  "three_page_host = \<lparr>httpClient = three_pages, openApiLookup = Map.empty, JSON_stringify = (\<lambda>v. [])\<rparr>"

text \<open>A listing of two pages whose second page cannot be fetched.\<close>

definition second_page_fails :: "request list \<Rightarrow> operation \<Rightarrow> json \<Rightarrow> exec_result" where
  "second_page_fails hist operation params =
     (if get ''start_cursor'' params = JUndefined then Resolved 200 (listing P1 (JStr ''cursor2''))
      else Rejected (HttpClientError ''Bad Gateway'' 502 JNull))"

definition second_page_fails_host :: host where
  "second_page_fails_host =
     \<lparr>httpClient = second_page_fails, openApiLookup = Map.empty, JSON_stringify = (\<lambda>v. [])\<rparr>"



text \<open>
  The scenario of the repository's test of the one pager
  (\<^verbatim>\<open>handleOnePagerRequest\<close>, ``should recursively retrieve page content''): a page
  with a title property, two blocks of which the second is a child database, and a
  comment. The lookup table has no operation for the detail of a property.
\<close>

definition page_op :: operation where
  "page_op = Operation ''get'' ''/v1/pages/{page_id}''"

definition database_op :: operation where
  "database_op = Operation ''get'' ''/v1/databases/{database_id}''"

definition comment_op :: operation where
  "comment_op = Operation ''get'' ''/v1/comments''"

definition property_op :: operation where
  "property_op = Operation ''get'' ''/v1/pages/{page_id}/properties/{property_id}''"

definition test_lookup :: "string \<rightharpoonup> operation" where
  "test_lookup = [''API-retrieve-a-page'' \<mapsto> page_op, ''API-get-block-children'' \<mapsto> children_op,
     ''API-retrieve-a-database'' \<mapsto> database_op, ''API-retrieve-a-comment'' \<mapsto> comment_op]"

definition test_page :: json where
  "test_page = JObj [(''object'', JStr ''page''), (''id'', JStr ''test-page-id''),
     (''properties'', JObj [(''title'', JObj [(''id'', JStr ''title''), (''type'', JStr ''title'')])]),
     (''has_children'', JBool True)]"

definition test_blocks :: "json list" where
  "test_blocks =
     [JObj [(''object'', JStr ''block''), (''id'', JStr ''block-1''), (''type'', JStr ''paragraph''),
        (''has_children'', JBool False)],
      JObj [(''object'', JStr ''block''), (''id'', JStr ''block-2''), (''type'', JStr ''child_database''),
        (''has_children'', JBool False), (''child_database'', JObj [(''database_id'', JStr ''db-1'')])]]"

definition test_database :: json where
  "test_database = JObj [(''object'', JStr ''database''), (''id'', JStr ''db-1'')]"

definition test_comments :: json where
  "test_comments = JObj [(''object'', JStr ''list''),
     (''results'', JArr [JObj [(''object'', JStr ''comment''), (''id'', JStr ''comment-1'')]]),
     (''has_more'', JBool False)]"

definition test_client :: "request list \<Rightarrow> operation \<Rightarrow> json \<Rightarrow> exec_result" where
  "test_client hist operation params =
     (if operation = page_op then Resolved 200 test_page
      else if operation = children_op then Resolved 200 (listing test_blocks JNull)
      else if operation = database_op then Resolved 200 test_database
      else if operation = comment_op then Resolved 200 test_comments
      else Resolved 200 (JObj []))"

definition test_host :: host where
  "test_host = \<lparr>httpClient = test_client, openApiLookup = test_lookup, JSON_stringify = (\<lambda>v. [])\<rparr>"

definition no_timer :: timing where
  "no_timer = \<lparr>timer_before_fetch = False, timer_before_tasks = False\<rparr>"

definition slow_tasks :: timing where
  "slow_tasks = \<lparr>timer_before_fetch = False, timer_before_tasks = True\<rparr>"

definition test_clock :: clock where
  "test_clock = \<lparr>startTime = 1000, endTime = 1042, isoString = ''2025-01-01T00:00:00.000Z''\<rparr>"

definition test_params :: one_pager_params where
  "test_params = \<lparr>maxDepth = Some 2, includeDatabases = Some True, includeComments = Some True,
     includeProperties = None, maxParallel = None, skipCache = None, batchSize = None, timeoutMs = None,
     page_id = JStr ''test-page-id''\<rparr>"

text \<open>The same pages behind a lookup table that has no operation at all.\<close>

definition unresolved_host :: host where
  "unresolved_host = \<lparr>httpClient = test_client, openApiLookup = Map.empty, JSON_stringify = (\<lambda>v. [])\<rparr>"

text \<open>A source on which no page is found.\<close>

definition not_found :: json where
  "not_found = JObj [(''object'', JStr ''error''), (''status'', JNum 404), (''code'', JStr ''object_not_found'')]"

definition not_found_client :: "request list \<Rightarrow> operation \<Rightarrow> json \<Rightarrow> exec_result" where
  "not_found_client hist operation params = Resolved 404 not_found"

definition not_found_host :: host where
  "not_found_host = \<lparr>httpClient = not_found_client, openApiLookup = test_lookup, JSON_stringify = (\<lambda>v. [])\<rparr>"

text \<open>The tree and the calls of a crawl of the test page, from a fresh proxy.\<close>

definition test_tree :: json where
  "test_tree = JObj [(''object'', JStr ''page''), (''id'', JStr ''test-page-id''),
     (''properties'', JObj [(''title'', JObj [(''id'', JStr ''title''), (''type'', JStr ''title'')])]),
     (''has_children'', JBool True),
     (''content'', JArr
        [JObj [(''object'', JStr ''block''), (''id'', JStr ''block-1''), (''type'', JStr ''paragraph''),
           (''has_children'', JBool False)],
         JObj [(''object'', JStr ''block''), (''id'', JStr ''block-2''), (''type'', JStr ''child_database''),
           (''has_children'', JBool False), (''child_database'', JObj [(''database_id'', JStr ''db-1'')]),
           (''database'', test_database)]]),
     (''detailed_properties'', JObj [(''title'', JObj [(''id'', JStr ''title''), (''type'', JStr ''title'')])]),
     (''comments'', test_comments)]"

definition test_calls :: "request list" where
  "test_calls =
     [(page_op, JObj [(''page_id'', JStr ''test-page-id'')]),
      (children_op, JObj [(''block_id'', JStr ''test-page-id''), (''page_size'', JNum 100)]),
      (comment_op, JObj [(''block_id'', JStr ''test-page-id'')]),
      (database_op, JObj [(''database_id'', JStr ''db-1'')])]"

definition with_meta :: "json \<Rightarrow> clock \<Rightarrow> one_pager_params \<Rightarrow> json" where
  "with_meta node clk params = JObj (set_field ''_meta'' (meta clk (one_pager_options params)) (spread node))"

text \<open>
  A page whose only property has an identifier with the internal link scheme, behind
  a lookup table that has every operation.
\<close>

definition full_lookup :: "string \<rightharpoonup> operation" where
  "full_lookup = [''API-retrieve-a-page'' \<mapsto> page_op, ''API-get-block-children'' \<mapsto> children_op,
     ''API-retrieve-a-database'' \<mapsto> database_op, ''API-retrieve-a-comment'' \<mapsto> comment_op,
     ''API-retrieve-a-page-property'' \<mapsto> property_op]"

definition link_properties :: json where
  "link_properties = JObj [(''Link'', JObj [(''id'', JStr ''notion://page''), (''type'', JStr ''url'')])]"

definition link_page :: json where
  "link_page = JObj [(''object'', JStr ''page''), (''id'', JStr ''link-page''),
     (''properties'', link_properties)]"

definition link_client :: "request list \<Rightarrow> operation \<Rightarrow> json \<Rightarrow> exec_result" where
  "link_client hist operation params =
     (if operation = page_op then Resolved 200 link_page
      else if operation = children_op then Resolved 200 (listing [plain_block ''a''] JNull)
      else Resolved 200 (JObj [(''object'', JStr ''list''), (''results'', JArr [])]))"

definition link_host :: host where
  "link_host = \<lparr>httpClient = link_client, openApiLookup = full_lookup, JSON_stringify = (\<lambda>v. [])\<rparr>"

definition link_options :: RecursiveExplorationOptions where
  "link_options = \<lparr>maxDepth = Some 5, includeDatabases = Some True, includeComments = Some True,
     includeProperties = Some True, maxParallel = Some 15, skipCache = Some False, batchSize = Some 10,
     timeoutMs = Some 60000\<rparr>"

definition link_details :: json where
  "link_details = JObj [(''Link'', JObj [(''id'', JStr ''notion://page''), (''type'', JStr ''url''),
     (''details'', unsupported_stub)])]"










text \<open>The test page behind a lookup table that has the operation for pages only.\<close>

definition page_only_host :: host where
  "page_only_host = \<lparr>httpClient = test_client, openApiLookup = [''API-retrieve-a-page'' \<mapsto> page_op],
     JSON_stringify = (\<lambda>v. [])\<rparr>"

definition test_request :: request where
  "test_request = page_request page_op (JStr ''test-page-id'')"

definition after_first_run :: world where
  "after_first_run = fresh\<lparr>calls := [test_request], pageCache := [JStr ''test-page-id'' \<mapsto> test_page]\<rparr>"





section \<open>Properties of the pagination merge\<close>









text \<open>
  C10. When the first page was fetched with status 200 and the merge returns a
  response, that response has \<^verbatim>\<open>has_more\<close> false and \<^verbatim>\<open>next_cursor\<close> null,
  whatever happened to the later pages, and every other top-level field but
  \<^verbatim>\<open>results\<close> is the one of the first page's data.
\<close>

theorem merged_response_top_level:
  assumes "handleBlockChildrenParallel h operation params w = Some (Inr (Text merged), w')"
    and "httpClient h (calls w) operation params = Resolved 200 d"
  shows "get ''has_more'' merged = JBool False \<and> get ''next_cursor'' merged = JNull
     \<and> (\<forall>k. k \<notin> {''results'', ''has_more'', ''next_cursor''} \<longrightarrow>
            get k merged = get k (JObj (spread d)))"
proof -
  from assms obtain results where
    m: "merged = JObj (set_field ''next_cursor'' JNull (set_field ''has_more'' (JBool False)
                  (set_field ''results'' results (spread d))))"
    by (auto simp: handleBlockChildrenParallel_def handleBlockChildrenParallel_finish_def executeOperation_def Let_def
        split: if_splits option.splits sum.splits prod.splits)
  show ?thesis unfolding m
    by (simp add: update_conv')
qed

theorem merged_response_top_level_witness:
  "get ''has_more'' (listing P1 (JStr ''cursor2'')) = JBool True
   \<and> get ''has_more'' (listing P1 JNull) = JBool False
   \<and> get ''next_cursor'' (listing P1 JNull) = JNull
   \<and> get ''object'' (listing P1 JNull) = get ''object'' (JObj (spread (listing P1 (JStr ''cursor2''))))"
proof -
  have run: "handleBlockChildrenParallel second_page_fails_host children_op root_params fresh =
       Some (Inr (Text (listing P1 JNull)),
         fresh\<lparr>calls := (children_op, root_params)
             # replicate 5 (children_op, nextPageParams root_params (JStr ''cursor2''))\<rparr>)"
    by (simp add: handleBlockChildrenParallel_def handleBlockChildrenParallel_finish_def second_page_fails_host_def second_page_fails_def
        fresh_def executeOperation_def listing_def nullish_def or_else_def root_params_def
        page_loop.simps maxParallelRequests_def page_of_response_def push_spread_def iterate_def
        nextPageParams_def Let_def eval_nat_numeral)
  have first: "httpClient second_page_fails_host (calls fresh) children_op root_params =
       Resolved 200 (listing P1 (JStr ''cursor2''))"
    by (simp add: second_page_fails_host_def second_page_fails_def root_params_def)
  have "get ''has_more'' (listing P1 (JStr ''cursor2'')) = JBool True"
    by (simp add: listing_def)
  with merged_response_top_level[OF run first] show ?thesis by simp
qed

text \<open>
  C1. On the listing of three pages of sizes 2, 2 and 1 the merge issues eleven
  requests, five for each of the two later cursors, and returns seventeen results:
  the first page once and each later page five times.
\<close>

theorem three_page_listing_merged:
  "handleBlockChildrenParallel three_page_host children_op root_params fresh =
     Some (Inr (Text (listing (P1 @ P2 @ P2 @ P2 @ P2 @ P2 @ P3 @ P3 @ P3 @ P3 @ P3) JNull)),
       fresh\<lparr>calls := (children_op, root_params)
          # replicate 5 (children_op, nextPageParams root_params (JStr ''cursor2''))
          @ replicate 5 (children_op, nextPageParams root_params (JStr ''cursor3''))\<rparr>)
   \<and> length (P1 @ P2 @ P2 @ P2 @ P2 @ P2 @ P3 @ P3 @ P3 @ P3 @ P3) = 17
   \<and> P1 @ P2 @ P2 @ P2 @ P2 @ P2 @ P3 @ P3 @ P3 @ P3 @ P3 \<noteq> P1 @ P2 @ P3"
  by (simp add: handleBlockChildrenParallel_def handleBlockChildrenParallel_finish_def three_page_host_def three_pages_def
        fresh_def executeOperation_def listing_def nullish_def or_else_def root_params_def
        page_loop.simps maxParallelRequests_def page_of_response_def push_spread_def iterate_def
        nextPageParams_def Let_def eval_nat_numeral P1_def P2_def P3_def plain_block_def)

section \<open>Properties of the crawl of a page\<close>

lemma starts_with_append: "starts_with s t \<Longrightarrow> starts_with (s @ u) t"
  by (induction s t rule: starts_with.induct) auto

lemma str_includes_append: "str_includes s t \<Longrightarrow> str_includes (s @ u) t"
proof (induction s)
  case Nil
  then show ?case by (cases u) auto
next
  case (Cons c s)
  then show ?case using starts_with_append[of "c # s" t u] by auto
qed

lemma timeout_error_timed_out: "str_includes (message (timeout_error options)) ''timed out''"
proof -
  have "str_includes ''Operation timed out after '' ''timed out''" by simp
  then show ?thesis
    unfolding timeout_error_def message.simps by (simp only: str_includes_append append_assoc)
qed

lemma catch_timeout_error: "retrievePage_catch pageId options (timeout_error options) = timeout_node pageId options"
  by (simp add: retrievePage_catch_def timeout_error_timed_out)

lemma one_pager_depth: "num_or (maxDepth (one_pager_options params)) 5 = num_or (maxDepth params) 5"
  by (simp add: one_pager_options_def num_or_def split: option.splits)


text \<open>
  C2, as the code has it. At a depth that has reached the limit (\<^verbatim>\<open>maxDepth\<close>, or 5
  when it is absent or 0) the crawl of a page returns exactly the node with the
  \<^verbatim>\<open>id\<close> and the note \<^verbatim>\<open>Maximum recursion depth reached\<close>, makes no call and leaves
  every cache as it is. The only trace it leaves is the timer it has started and
  never raced, whose rejection nobody handles.
\<close>

theorem depth_limit_stub:
  assumes "num_or (maxDepth options) 5 \<le> int currentDepth"
  shows "retrievePageRecursively h tm pageId options currentDepth w =
         (Some (Inr (JObj [(''id'', pageId), (''note'', JStr ''Maximum recursion depth reached'')])),
          Some (w\<lparr>unhandled := unhandled w @ [timeout_error options]\<rparr>))"
  using assms
  by (simp add: retrievePageRecursively_def retrievePage_try_def max_depth_node_def depth_note_def
      unraced_def)

theorem depth_limit_stub_witness:
  "retrievePageRecursively test_host no_timer (JStr ''test-page-id'') (one_pager_options test_params) 2 fresh =
     (Some (Inr (JObj [(''id'', JStr ''test-page-id''), (''note'', JStr ''Maximum recursion depth reached'')])),
      Some (fresh\<lparr>unhandled := unhandled fresh @ [timeout_error (one_pager_options test_params)]\<rparr>))"
  by (rule depth_limit_stub) (simp add: one_pager_options_def test_params_def num_or_def)


lemmas scenario_defs = test_host_def test_client_def test_lookup_def test_page_def test_blocks_def
  test_database_def test_comments_def no_timer_def slow_tasks_def test_clock_def test_params_def
  fresh_def listing_def page_op_def children_op_def database_op_def comment_op_def property_op_def
  unresolved_host_def not_found_host_def not_found_client_def not_found_def test_tree_def
  test_calls_def with_meta_def

lemmas model_defs = handleOnePagerRequest_def one_pager_options_def retrievePageRecursively_def
  retrievePage_try_def expand_page_def resolve_page_def start_tasks_def finish_tasks_def
  properties_reject_def at_rest_def settled_def unraced_def enriched_page_def wants_properties_def
  with_properties_def has_comments_def retrievePage_catch_def
  timeout_node_def timeout_error_def max_depth_node_def depth_note_def failed_node_def
  meta_def json_of_num_def json_of_flag_def errorResponse_def page_params_def children_params_def
  retrieveBlocksRecursively_def retrieveBlocksRecursively_start_def
  retrieveBlocksRecursively_finish.simps for_batches.simps promise_all_map_def slice_def
  list_children_finish_def list_children_def listed_blocks_def as_blocks_def start_block_def finish_block_def settled_fields_def
  with_page_info_def type_field_def is_database_block_def
  retrievePageBasicInfo_start_def retrievePageBasicInfo_finish_def
  retrieveDatabase_start_def retrieveDatabase_finish_def
  retrieveComments_start_def retrieveComments_finish_def no_comments_def
  enrichPageProperties_def enrichPageProperties_start_def enrichPageProperties_finish_def
  written_back_def write_details_def property_start_def property_finish_def
  has_marker_def cacheKey_def property_response_def unsupported_stub_def error_stub_def
  handleBlockChildrenParallel_def handleBlockChildrenParallel_finish_def page_loop.simps
  nextPageParams_def page_of_response_def
  push_spread_def iterate_def maxParallelRequests_def executeOperation_def findOperation_def
  num_or_def flag_def show_opt_def show_int_def cannot_read_def type_error_def nullish_def
  or_else_def Let_def

lemmas link_defs = full_lookup_def link_properties_def link_page_def link_client_def link_host_def
  link_options_def link_details_def plain_block_def

text \<open>The crawl of a page and the aggregate operation, by the step that resolves the page.\<close>

lemma retrievePage_try_expands:
  assumes "int currentDepth < num_or (maxDepth options) 5"
  shows "resolve_page h tm pageId options w = (Fetched pageData, w1) \<Longrightarrow>
           retrievePage_try h tm pageId options currentDepth w =
           expand_page h tm pageId pageData options currentDepth True w1"
    and "resolve_page h tm pageId options w = (Cached pageData, w1) \<Longrightarrow>
           retrievePage_try h tm pageId options currentDepth w =
           expand_page h tm pageId pageData options currentDepth False w1"
    and "resolve_page h tm pageId options w = (Missing, w1) \<Longrightarrow>
           retrievePage_try h tm pageId options currentDepth w =
           (Some (Inl (Error ''Error'' ''API-retrieve-a-page method not found.'')), Some (unraced options w1))"
    and "resolve_page h tm pageId options w = (Thrown e, w1) \<Longrightarrow>
           retrievePage_try h tm pageId options currentDepth w = (Some (Inl e), Some w1)"
    and "resolve_page h tm pageId options w = (Returned node, w1) \<Longrightarrow>
           retrievePage_try h tm pageId options currentDepth w = (Some (Inr node), Some w1)"
  using assms by (simp_all add: retrievePage_try_def)

lemma retrievePageRecursively_cases:
  shows "retrievePage_try h tm pageId options currentDepth w = (Some (Inr node), w') \<Longrightarrow>
           retrievePageRecursively h tm pageId options currentDepth w = (Some (Inr node), w')"
    and "retrievePage_try h tm pageId options currentDepth w = (Some (Inl e), w') \<Longrightarrow>
           retrievePageRecursively h tm pageId options currentDepth w =
           (Some (Inr (retrievePage_catch pageId options e)), w')"
    and "retrievePage_try h tm pageId options currentDepth w = (None, w') \<Longrightarrow>
           retrievePageRecursively h tm pageId options currentDepth w = (None, w')"
  by (simp_all add: retrievePageRecursively_def)

lemma handleOnePagerRequest_cases:
  shows "retrievePageRecursively h tm (page_id params) (one_pager_options params) 0 w = (Some (Inr node), w') \<Longrightarrow>
           handleOnePagerRequest h tm clk params w = (Some (Inr (Text (with_meta node clk params))), w')"
    and "retrievePageRecursively h tm (page_id params) (one_pager_options params) 0 w = (None, w') \<Longrightarrow>
           handleOnePagerRequest h tm clk params w = (None, w')"
  by (simp_all add: handleOnePagerRequest_def with_meta_def Let_def)

lemma handleOnePagerRequest_try:
  shows "retrievePage_try h tm (page_id params) (one_pager_options params) 0 w = (Some (Inr node), w') \<Longrightarrow>
           handleOnePagerRequest h tm clk params w = (Some (Inr (Text (with_meta node clk params))), w')"
    and "retrievePage_try h tm (page_id params) (one_pager_options params) 0 w = (Some (Inl e), w') \<Longrightarrow>
           handleOnePagerRequest h tm clk params w =
           (Some (Inr (Text (with_meta (retrievePage_catch (page_id params) (one_pager_options params) e)
              clk params))), w')"
    and "retrievePage_try h tm (page_id params) (one_pager_options params) 0 w = (None, w') \<Longrightarrow>
           handleOnePagerRequest h tm clk params w = (None, w')"
  by (simp_all add: handleOnePagerRequest_cases retrievePageRecursively_cases)

text \<open>The crawl of the test page from a fresh proxy, step by step.\<close>

lemma test_page_fetched:
  "resolve_page test_host tm (JStr ''test-page-id'') (one_pager_options (test_params\<lparr>maxDepth := d\<rparr>)) fresh =
     (if timer_before_fetch tm
      then (Thrown (timeout_error (one_pager_options (test_params\<lparr>maxDepth := d\<rparr>))),
            fresh\<lparr>calls := [(page_op, page_params (JStr ''test-page-id''))]\<rparr>)
      else (Fetched test_page,
            fresh\<lparr>calls := [(page_op, page_params (JStr ''test-page-id''))],
              pageCache := [JStr ''test-page-id'' \<mapsto> test_page]\<rparr>))"
  by (simp add: resolve_page_def one_pager_options_def test_params_def flag_def fresh_def
      findOperation_def test_host_def test_lookup_def executeOperation_def test_client_def Let_def)

text \<open>
  C2, as the claim states it, fails: asked for \<^verbatim>\<open>maxDepth\<close> 0, the aggregate
  operation crawls the test page with the default depth 5. It makes four calls and
  returns the whole tree.
\<close>

theorem zero_depth_crawls:
  "map_prod id (map_option calls)
     (handleOnePagerRequest test_host no_timer test_clock (test_params\<lparr>maxDepth := Some 0\<rparr>) fresh) =
     (Some (Inr (Text (with_meta test_tree test_clock (test_params\<lparr>maxDepth := Some 0\<rparr>)))),
      Some test_calls)
   \<and> with_meta test_tree test_clock (test_params\<lparr>maxDepth := Some 0\<rparr>) \<noteq>
       JObj [(''id'', JStr ''test-page-id''), (''note'', JStr ''max depth reached'')]
   \<and> test_tree \<noteq> max_depth_node (JStr ''test-page-id'')
   \<and> maxDepth (one_pager_options (test_params\<lparr>maxDepth := Some 0\<rparr>)) = Some 5"
proof -
  let ?p = "test_params\<lparr>maxDepth := Some 0\<rparr>"
  let ?w1 = "fresh\<lparr>calls := [(page_op, page_params (JStr ''test-page-id''))],
              pageCache := [JStr ''test-page-id'' \<mapsto> test_page]\<rparr>"
  have d: "int 0 < num_or (maxDepth (one_pager_options ?p)) 5"
    by (simp add: one_pager_options_def num_or_def)
  have r: "resolve_page test_host no_timer (page_id ?p) (one_pager_options ?p) fresh = (Fetched test_page, ?w1)"
    using test_page_fetched[of no_timer "Some 0"] by (simp add: no_timer_def test_params_def)
  have "map_prod id (map_option calls)
          (expand_page test_host no_timer (page_id ?p) test_page (one_pager_options ?p) 0 True ?w1) =
        (Some (Inr test_tree), Some test_calls)"
    by (simp add: model_defs scenario_defs)
  then obtain w' where x: "expand_page test_host no_timer (page_id ?p) test_page (one_pager_options ?p) 0 True ?w1 =
        (Some (Inr test_tree), Some w')" and c: "calls w' = test_calls"
    by (cases "expand_page test_host no_timer (page_id ?p) test_page (one_pager_options ?p) 0 True ?w1") auto
  have "handleOnePagerRequest test_host no_timer test_clock ?p fresh =
        (Some (Inr (Text (with_meta test_tree test_clock ?p))), Some w')"
    using retrievePage_try_expands(1)[OF d r] x by (simp add: handleOnePagerRequest_try)
  then show ?thesis
    using c by (simp add: scenario_defs max_depth_node_def meta_def one_pager_options_def num_or_def)
qed

lemma catch_not_found:
  "retrievePage_catch pageId options (Error ''Error'' ''API-retrieve-a-page method not found.'') =
   JObj [(''id'', pageId), (''error'', JStr ''API-retrieve-a-page method not found.''),
     (''retrievalFailed'', JBool True)]"
  by (simp add: retrievePage_catch_def failed_node_def)

text \<open>
  C3, as the code has it. When the timer fires before the fetch of the page settles,
  or before the expansion tasks do (which includes tasks that stay pending for
  ever), the crawl of the page returns the node with the \<^verbatim>\<open>id\<close>, the error
  \<^verbatim>\<open>Operation timed out\<close>, \<^verbatim>\<open>partial_results\<close> and a note, and nothing else.
\<close>

theorem timeout_node_only:
  assumes "int currentDepth < num_or (maxDepth options) 5"
  shows "((flag (skipCache options) \<or> pageCache w pageId = None)
            \<and> findOperation h ''API-retrieve-a-page'' = Some operation \<and> timer_before_fetch tm
          \<longrightarrow> fst (retrievePageRecursively h tm pageId options currentDepth w) =
                Some (Inr (timeout_node pageId options)))
       \<and> ((resolve_page h tm pageId options w = (Fetched pageData, w1)
              \<or> resolve_page h tm pageId options w = (Cached pageData, w1))
            \<and> \<not> (nullish pageData \<and> flag (includeProperties options))
            \<and> properties_reject (fst (start_tasks h pageId pageData options currentDepth w1)) = None
            \<and> (timer_before_tasks tm
                \<or> finish_tasks h pageId pageData options currentDepth
                     (fst (start_tasks h pageId pageData options currentDepth w1))
                     (snd (start_tasks h pageId pageData options currentDepth w1)) = Pending)
          \<longrightarrow> fst (retrievePageRecursively h tm pageId options currentDepth w) =
                Some (Inr (timeout_node pageId options)))"
proof (intro conjI impI)
  assume a: "(flag (skipCache options) \<or> pageCache w pageId = None)
            \<and> findOperation h ''API-retrieve-a-page'' = Some operation \<and> timer_before_fetch tm"
  then have "resolve_page h tm pageId options w =
      (Thrown (timeout_error options), snd (executeOperation h operation (page_params pageId) w))"
    by (auto simp: resolve_page_def Let_def)
  from retrievePage_try_expands(4)[OF assms this]
  show "fst (retrievePageRecursively h tm pageId options currentDepth w) =
                Some (Inr (timeout_node pageId options))"
    by (simp add: retrievePageRecursively_cases catch_timeout_error)
next
  let ?started = "start_tasks h pageId pageData options currentDepth w1"
  let ?finished = "finish_tasks h pageId pageData options currentDepth (fst ?started) (snd ?started)"
  assume b: "(resolve_page h tm pageId options w = (Fetched pageData, w1)
              \<or> resolve_page h tm pageId options w = (Cached pageData, w1))
            \<and> \<not> (nullish pageData \<and> flag (includeProperties options))
            \<and> properties_reject (fst ?started) = None
            \<and> (timer_before_tasks tm \<or> ?finished = Pending)"
  have x: "fst (expand_page h tm pageId pageData options currentDepth raced w1) =
           Some (Inl (timeout_error options))" for raced
    using b by (cases ?finished) (auto simp: expand_page_def Let_def)
  from b consider
      "retrievePage_try h tm pageId options currentDepth w =
         expand_page h tm pageId pageData options currentDepth True w1"
    | "retrievePage_try h tm pageId options currentDepth w =
         expand_page h tm pageId pageData options currentDepth False w1"
    using retrievePage_try_expands(1,2)[OF assms] by blast
  then have "fst (retrievePage_try h tm pageId options currentDepth w) = Some (Inl (timeout_error options))"
    using x by cases simp_all
  then show "fst (retrievePageRecursively h tm pageId options currentDepth w) =
                Some (Inr (timeout_node pageId options))"
    by (cases "retrievePage_try h tm pageId options currentDepth w")
       (simp add: retrievePageRecursively_cases catch_timeout_error)
qed

theorem timeout_node_only_witness:
  "fst (retrievePageRecursively test_host \<lparr>timer_before_fetch = True, timer_before_tasks = False\<rparr>
          (JStr ''test-page-id'') (one_pager_options test_params) 0 fresh) =
     Some (Inr (timeout_node (JStr ''test-page-id'') (one_pager_options test_params)))
   \<and> fst (retrievePageRecursively test_host slow_tasks
          (JStr ''test-page-id'') (one_pager_options test_params) 0 fresh) =
     Some (Inr (timeout_node (JStr ''test-page-id'') (one_pager_options test_params)))"
proof -
  let ?o = "one_pager_options test_params"
  let ?w1 = "fresh\<lparr>calls := [(page_op, page_params (JStr ''test-page-id''))],
              pageCache := [JStr ''test-page-id'' \<mapsto> test_page]\<rparr>"
  have d: "int 0 < num_or (maxDepth ?o) 5"
    by (simp add: one_pager_options_def test_params_def num_or_def)
  have r: "resolve_page test_host slow_tasks (JStr ''test-page-id'') ?o fresh = (Fetched test_page, ?w1)"
    using test_page_fetched[of slow_tasks "Some 2"] by (simp add: slow_tasks_def test_params_def)
  have n: "\<not> (nullish test_page \<and> flag (includeProperties ?o))"
    by (simp add: nullish_def test_page_def)
  have p: "properties_reject (fst (start_tasks test_host (JStr ''test-page-id'') test_page ?o 0 ?w1)) = None"
    by (simp add: model_defs scenario_defs)
  have 1: "fst (retrievePageRecursively test_host \<lparr>timer_before_fetch = True, timer_before_tasks = False\<rparr>
          (JStr ''test-page-id'') ?o 0 fresh) = Some (Inr (timeout_node (JStr ''test-page-id'') ?o))"
    using timeout_node_only[OF d, of fresh "JStr ''test-page-id''" test_host page_op
        "\<lparr>timer_before_fetch = True, timer_before_tasks = False\<rparr>"]
    by (simp add: fresh_def findOperation_def test_host_def test_lookup_def)
  have 2: "fst (retrievePageRecursively test_host slow_tasks (JStr ''test-page-id'') ?o 0 fresh) =
      Some (Inr (timeout_node (JStr ''test-page-id'') ?o))"
    using timeout_node_only[OF d, of fresh "JStr ''test-page-id''" test_host _ slow_tasks test_page ?w1] r n p
    by (simp add: slow_tasks_def)
  show ?thesis using 1 2 by simp
qed

text \<open>
  C3, as the claim states it, fails. The only property of the page has an identifier
  with the internal link scheme: its detail is there when the task is started, with
  no call. The timer then fires while the blocks are fetched. The node returned has
  neither the detail, nor the properties of the page, nor any content.
\<close>

theorem timeout_discards_resolved_data:
  "properties_task (fst (start_tasks link_host (JStr ''link-page'') link_page link_options 0
        (snd (resolve_page link_host slow_tasks (JStr ''link-page'') link_options fresh)))) =
     Some (None, [(''Link'', JObj [(''id'', JStr ''notion://page''), (''type'', JStr ''url'')],
                   ''link-page:notion://page'', Written unsupported_stub)])
   \<and> fst (resolve_page link_host slow_tasks (JStr ''link-page'') link_options fresh) = Fetched link_page
   \<and> fst (retrievePageRecursively link_host slow_tasks (JStr ''link-page'') link_options 0 fresh) =
       Some (Inr (JObj [(''id'', JStr ''link-page''), (''error'', JStr ''Operation timed out''),
              (''partial_results'', JBool True),
              (''note'', JStr ''Processing exceeded timeout limit (60000ms)'')]))
   \<and> get ''detailed_properties'' (JObj [(''id'', JStr ''link-page''), (''error'', JStr ''Operation timed out''),
              (''partial_results'', JBool True),
              (''note'', JStr ''Processing exceeded timeout limit (60000ms)'')]) = JUndefined
   \<and> get ''properties'' (JObj [(''id'', JStr ''link-page''), (''error'', JStr ''Operation timed out''),
              (''partial_results'', JBool True),
              (''note'', JStr ''Processing exceeded timeout limit (60000ms)'')]) = JUndefined"
proof -
  let ?w1 = "fresh\<lparr>calls := [(page_op, page_params (JStr ''link-page''))],
              pageCache := [JStr ''link-page'' \<mapsto> link_page]\<rparr>"
  have d: "int 0 < num_or (maxDepth link_options) 5"
    by (simp add: link_options_def num_or_def)
  have r: "resolve_page link_host slow_tasks (JStr ''link-page'') link_options fresh = (Fetched link_page, ?w1)"
    by (simp add: resolve_page_def link_options_def flag_def fresh_def findOperation_def link_host_def
        full_lookup_def executeOperation_def link_client_def slow_tasks_def page_op_def Let_def)
  have s: "properties_task (fst (start_tasks link_host (JStr ''link-page'') link_page link_options 0 ?w1)) =
     Some (None, [(''Link'', JObj [(''id'', JStr ''notion://page''), (''type'', JStr ''url'')],
                   ''link-page:notion://page'', Written unsupported_stub)])"
    by (simp add: model_defs scenario_defs link_defs)
  have x: "fst (expand_page link_host slow_tasks (JStr ''link-page'') link_page link_options 0 True ?w1) =
      Some (Inl (timeout_error link_options))"
    by (simp add: model_defs scenario_defs link_defs)
  have "fst (retrievePage_try link_host slow_tasks (JStr ''link-page'') link_options 0 fresh) =
      Some (Inl (timeout_error link_options))"
    using retrievePage_try_expands(1)[OF d r] x by simp
  then have "fst (retrievePageRecursively link_host slow_tasks (JStr ''link-page'') link_options 0 fresh) =
      Some (Inr (timeout_node (JStr ''link-page'') link_options))"
    by (cases "retrievePage_try link_host slow_tasks (JStr ''link-page'') link_options 0 fresh")
       (simp add: retrievePageRecursively_cases catch_timeout_error)
  then show ?thesis
    using r s by (simp add: timeout_node_def link_options_def show_opt_def show_int_def show_nat.simps digit_def)
qed

text \<open>
  C4, as the code has it. Let \<^verbatim>\<open>maxDepth\<close> be absent or not negative, so that the
  root is below the depth limit. When the lookup table has no
  \<^verbatim>\<open>API-retrieve-a-page\<close> and the page is not taken from the cache, the aggregate
  operation makes no call, changes no cache and answers with the node of the failed
  root and the \<^verbatim>\<open>_meta\<close> of the call: the throw of line 597 is caught by the
  \<^verbatim>\<open>catch\<close> of \<^verbatim>\<open>retrievePageRecursively\<close> itself. The call leaves before it has
  raced its timer, whose rejection nobody handles. With a negative \<^verbatim>\<open>maxDepth\<close>
  the root is at the depth limit: the call answers with the depth stub and does not
  come to look the operation up.
\<close>

theorem missing_page_operation:
  assumes "findOperation h ''API-retrieve-a-page'' = None"
    and "flag (skipCache params) \<or> pageCache w (page_id params) = None"
  shows "(0 < num_or (maxDepth params) 5 \<longrightarrow>
            handleOnePagerRequest h tm clk params w =
            (Some (Inr (Text (with_meta
               (JObj [(''id'', page_id params), (''error'', JStr ''API-retrieve-a-page method not found.''),
                  (''retrievalFailed'', JBool True)]) clk params))),
             Some (w\<lparr>unhandled := unhandled w @ [timeout_error (one_pager_options params)]\<rparr>)))
       \<and> (num_or (maxDepth params) 5 < 0 \<longrightarrow>
            handleOnePagerRequest h tm clk params w =
            (Some (Inr (Text (with_meta
               (JObj [(''id'', page_id params), (''note'', JStr ''Maximum recursion depth reached'')])
               clk params))),
             Some (w\<lparr>unhandled := unhandled w @ [timeout_error (one_pager_options params)]\<rparr>)))"
proof (intro conjI impI)
  let ?o = "one_pager_options params"
  assume "0 < num_or (maxDepth params) 5"
  then have d: "int 0 < num_or (maxDepth ?o) 5" by (simp add: one_pager_depth)
  have s: "flag (skipCache ?o) = flag (skipCache params)"
    by (simp add: one_pager_options_def flag_def)
  have "resolve_page h tm (page_id params) ?o w = (Missing, w)"
    using assms s by (auto simp: resolve_page_def)
  from retrievePage_try_expands(3)[OF d this]
  show "handleOnePagerRequest h tm clk params w =
            (Some (Inr (Text (with_meta
               (JObj [(''id'', page_id params), (''error'', JStr ''API-retrieve-a-page method not found.''),
                  (''retrievalFailed'', JBool True)]) clk params))),
             Some (w\<lparr>unhandled := unhandled w @ [timeout_error ?o]\<rparr>))"
    by (simp add: handleOnePagerRequest_try catch_not_found unraced_def)
next
  let ?o = "one_pager_options params"
  assume "num_or (maxDepth params) 5 < 0"
  then have "num_or (maxDepth ?o) 5 \<le> int 0" by (simp add: one_pager_depth)
  then have "retrievePage_try h tm (page_id params) ?o 0 w =
      (Some (Inr (max_depth_node (page_id params))), Some (unraced ?o w))"
    by (simp add: retrievePage_try_def)
  then show "handleOnePagerRequest h tm clk params w =
            (Some (Inr (Text (with_meta
               (JObj [(''id'', page_id params), (''note'', JStr ''Maximum recursion depth reached'')])
               clk params))),
             Some (w\<lparr>unhandled := unhandled w @ [timeout_error ?o]\<rparr>))"
    by (simp add: handleOnePagerRequest_try max_depth_node_def depth_note_def unraced_def)
qed

theorem missing_page_operation_witness:
  "handleOnePagerRequest unresolved_host no_timer test_clock test_params fresh =
     (Some (Inr (Text (with_meta
        (JObj [(''id'', JStr ''test-page-id''), (''error'', JStr ''API-retrieve-a-page method not found.''),
           (''retrievalFailed'', JBool True)]) test_clock test_params))),
      Some (fresh\<lparr>unhandled := [timeout_error (one_pager_options test_params)]\<rparr>))
   \<and> handleOnePagerRequest unresolved_host no_timer test_clock (test_params\<lparr>maxDepth := Some (- 1)\<rparr>) fresh =
     (Some (Inr (Text (with_meta
        (JObj [(''id'', JStr ''test-page-id''), (''note'', JStr ''Maximum recursion depth reached'')])
        test_clock (test_params\<lparr>maxDepth := Some (- 1)\<rparr>)))),
      Some (fresh\<lparr>unhandled := [timeout_error (one_pager_options (test_params\<lparr>maxDepth := Some (- 1)\<rparr>))]\<rparr>))"
  using missing_page_operation[of unresolved_host test_params fresh no_timer test_clock]
    missing_page_operation[of unresolved_host "test_params\<lparr>maxDepth := Some (- 1)\<rparr>" fresh no_timer test_clock]
  by (simp add: findOperation_def unresolved_host_def fresh_def test_params_def num_or_def)

text \<open>
  C4, as the claim states it, fails: with no operation in the lookup table the body of
  the response is a node with \<^verbatim>\<open>_meta\<close>, not the envelope with a \<^verbatim>\<open>status\<close>, a
  \<^verbatim>\<open>code\<close> and a \<^verbatim>\<open>timestamp\<close>.
\<close>

theorem missing_page_operation_is_no_envelope:
  "fst (handleOnePagerRequest unresolved_host no_timer test_clock test_params fresh) =
     Some (Inr (Text (JObj [(''id'', JStr ''test-page-id''),
        (''error'', JStr ''API-retrieve-a-page method not found.''), (''retrievalFailed'', JBool True),
        (''_meta'', meta test_clock (one_pager_options test_params))])))
   \<and> fst (handleOnePagerRequest unresolved_host no_timer test_clock test_params fresh) \<noteq>
     Some (Inr (Text (errorResponse test_clock (Error ''Error'' ''API-retrieve-a-page method not found.''))))
   \<and> get ''status'' (JObj [(''id'', JStr ''test-page-id''),
        (''error'', JStr ''API-retrieve-a-page method not found.''), (''retrievalFailed'', JBool True),
        (''_meta'', meta test_clock (one_pager_options test_params))]) = JUndefined"
proof -
  let ?o = "one_pager_options test_params"
  have d: "int 0 < num_or (maxDepth ?o) 5"
    by (simp add: one_pager_options_def test_params_def num_or_def)
  have "resolve_page unresolved_host no_timer (page_id test_params) ?o fresh = (Missing, fresh)"
    by (simp add: resolve_page_def one_pager_options_def test_params_def flag_def fresh_def
        findOperation_def unresolved_host_def)
  from retrievePage_try_expands(3)[OF d this]
  have "fst (handleOnePagerRequest unresolved_host no_timer test_clock test_params fresh) =
      Some (Inr (Text (with_meta (JObj [(''id'', JStr ''test-page-id''),
        (''error'', JStr ''API-retrieve-a-page method not found.''), (''retrievalFailed'', JBool True)])
        test_clock test_params)))"
    by (simp add: handleOnePagerRequest_try catch_not_found test_params_def)
  then show ?thesis
    by (simp add: with_meta_def errorResponse_def)
qed


section \<open>Properties of property enrichment\<close>








section \<open>Properties of content expansion\<close>























section \<open>Properties of the caches and the log of calls\<close>

lemma quiet_refl: "quiet op k sc w w"
  by (simp add: quiet_def)

lemma quiet_trans:
  assumes "quiet op k sc w w'" and "quiet op k sc w' w''"
  shows "quiet op k sc w w''"
proof -
  from assms(1) obtain new where
    n: "calls w' = calls w @ new" "\<not> sc \<and> pageCache w k \<noteq> None \<longrightarrow> page_request op k \<notin> set new"
    and c: "pageCache w k \<noteq> None \<longrightarrow> pageCache w' k \<noteq> None"
    by (auto simp: quiet_def)
  from assms(2) obtain new' where
    n': "calls w'' = calls w' @ new'" "\<not> sc \<and> pageCache w' k \<noteq> None \<longrightarrow> page_request op k \<notin> set new'"
    and c': "pageCache w' k \<noteq> None \<longrightarrow> pageCache w'' k \<noteq> None"
    by (auto simp: quiet_def)
  have "calls w'' = calls w @ (new @ new')" using n n' by simp
  moreover have "\<not> sc \<and> pageCache w k \<noteq> None \<longrightarrow> page_request op k \<notin> set (new @ new')"
    using n n' c by auto
  ultimately show ?thesis using c c' unfolding quiet_def by blast
qed

lemma quiet_call:
  assumes "(operation, params) \<noteq> page_request op k \<or> pageCache w k = None \<or> sc"
  shows "quiet op k sc w (snd (executeOperation h operation params w))"
  using assms by (auto simp: quiet_def executeOperation_def)

lemma quiet_caches:
  "quiet op k sc w (w\<lparr>pageCache := (pageCache w)(a \<mapsto> v)\<rparr>)"
  "quiet op k sc w (w\<lparr>blockCache := bc\<rparr>)"
  "quiet op k sc w (w\<lparr>databaseCache := dc\<rparr>)"
  "quiet op k sc w (w\<lparr>commentCache := cc\<rparr>)"
  "quiet op k sc w (w\<lparr>propertyCache := pc\<rparr>)"
  "quiet op k sc w (w\<lparr>unhandled := u\<rparr>)"
  by (simp_all add: quiet_def)

lemma next_page_is_no_page_request:
  assumes "truthy c"
  shows "(operation, nextPageParams params c) \<noteq> page_request op k"
proof
  assume "(operation, nextPageParams params c) = page_request op k"
  then have "get ''start_cursor'' (nextPageParams params c) = get ''start_cursor'' (page_params k)"
    by (simp add: page_request_def)
  then have "c = JUndefined"
    by (simp add: nextPageParams_def page_params_def update_conv')
  with assms show False by simp
qed

lemma page_loop_quiet:
  assumes "page_loop h operation params results nextCursor pageRequests w = Some y"
  shows "quiet op k sc w (snd y)"
proof (rule page_loop.raw_induct[where P = "\<lambda>h operation params results nextCursor pageRequests w y.
          quiet op k sc w (snd y)", OF _ assms])
  fix loop :: "host \<Rightarrow> operation \<Rightarrow> json \<Rightarrow> json \<Rightarrow> json \<Rightarrow> (json \<times> json) list \<Rightarrow> world
      \<Rightarrow> ((error + json) \<times> world) option"
    and h operation params results nextCursor pageRequests w y
  assume IH: "\<And>h operation params results nextCursor pageRequests w y.
      loop h operation params results nextCursor pageRequests w = Some y \<Longrightarrow> quiet op k sc w (snd y)"
  let ?sent = "executeOperation h operation (nextPageParams params nextCursor) w"
  assume step: "(if \<not> truthy nextCursor then Some (Inr results, w)
      else let sent = ?sent;
               pageRequests' = pageRequests @ [page_of_response (fst sent)]
           in if maxParallelRequests \<le> length pageRequests' \<or> \<not> truthy nextCursor
              then case merge_responses pageRequests' results nextCursor of
                   Inl e \<Rightarrow> Some (Inl e, snd sent)
                   | Inr merged \<Rightarrow>
                       if \<not> truthy (snd merged) then Some (Inr (fst merged), snd sent)
                       else loop h operation params (fst merged) (snd merged) [] (snd sent)
              else if \<not> truthy nextCursor then Some (Inr results, snd sent)
                   else loop h operation params results nextCursor pageRequests' (snd sent)) = Some y"
  show "quiet op k sc w (snd y)"
  proof (cases "truthy nextCursor")
    case False
    with step show ?thesis by (auto simp: quiet_refl)
  next
    case True
    have q: "quiet op k sc w (snd ?sent)"
      by (rule quiet_call) (simp add: next_page_is_no_page_request[OF True])
    from step True consider
      (stop) "snd y = snd ?sent"
    | (go) results' nextCursor' pageRequests' where
        "loop h operation params results' nextCursor' pageRequests' (snd ?sent) = Some y"
      by (auto simp: Let_def split: if_splits sum.splits)
    then show ?thesis
    proof cases
      case stop
      with q show ?thesis by simp
    next
      case go
      from IH[OF go] q show ?thesis by (blast intro: quiet_trans)
    qed
  qed
qed

lemma children_is_no_page_request: "(operation, children_params blockId) \<noteq> page_request op k"
  by (simp add: children_params_def page_request_def page_params_def)

lemma handleBlockChildrenParallel_finish_quiet:
  assumes "handleBlockChildrenParallel_finish h operation params response w = Some (r, w')"
  shows "quiet op k sc w w'"
proof -
  from assms consider
    (stop) "w' = w"
  | (go) results c y where
      "page_loop h operation params results c [] w = Some y" "snd y = w'"
    by (auto simp: handleBlockChildrenParallel_finish_def
        split: exec_result.splits if_splits option.splits prod.splits sum.splits)
  then show ?thesis
  proof cases
    case stop
    then show ?thesis by (simp add: quiet_refl)
  next
    case go
    from page_loop_quiet[OF go(1), of op k sc] go(2) show ?thesis by simp
  qed
qed

lemma list_children_finish_quiet:
  assumes "list_children_finish h operation blockId response w = Some (r, w')"
  shows "quiet op k sc w w'"
proof -
  from assms obtain r' where
    "handleBlockChildrenParallel_finish h operation (children_params blockId) response w = Some (r', w')"
    by (auto simp: list_children_finish_def split: option.splits prod.splits sum.splits)
  then show ?thesis by (rule handleBlockChildrenParallel_finish_quiet)
qed

lemma retrieveBlocksRecursively_start_quiet:
  "quiet op k sc w (snd (retrieveBlocksRecursively_start h blockId options currentDepth w))"
  unfolding retrieveBlocksRecursively_start_def Let_def
  by (auto split: option.splits
      intro: quiet_refl quiet_call[OF disjI1[OF children_is_no_page_request]])

lemma retrieveDatabase_start_quiet: "quiet op k sc w (snd (retrieveDatabase_start h databaseId options w))"
proof -
  have n: "(operation, JObj [(''database_id'', databaseId)]) \<noteq> page_request op k" for operation
    by (simp add: page_request_def page_params_def)
  show ?thesis
    unfolding retrieveDatabase_start_def Let_def
    by (auto split: option.splits intro: quiet_refl quiet_call[OF disjI1[OF n]])
qed

lemma retrieveDatabase_finish_quiet: "quiet op k sc w (snd (retrieveDatabase_finish databaseId response w))"
  unfolding retrieveDatabase_finish_def
  by (auto split: exec_result.splits intro: quiet_refl quiet_caches)

lemma retrievePageBasicInfo_start_quiet:
  "quiet op k (flag (skipCache options)) w (snd (retrievePageBasicInfo_start h pageId options w))"
proof (cases "(if \<not> flag (skipCache options) then pageCache w pageId else None)")
  case (Some cached)
  then show ?thesis by (simp add: retrievePageBasicInfo_start_def quiet_refl)
next
  case None
  have c: "(operation, JObj [(''page_id'', pageId)]) \<noteq> page_request op k \<or> pageCache w k = None
      \<or> flag (skipCache options)" for operation
    using None by (auto simp: page_request_def page_params_def split: if_splits)
  show ?thesis
    using None unfolding retrievePageBasicInfo_start_def Let_def
    by (auto split: option.splits intro: quiet_refl quiet_call[OF c])
qed

lemma retrievePageBasicInfo_finish_quiet:
  "quiet op k sc w (snd (retrievePageBasicInfo_finish pageId response w))"
  unfolding retrievePageBasicInfo_finish_def Let_def
  by (auto split: exec_result.splits intro: quiet_refl quiet_caches)

lemma cache_comments_quiet: "quiet op k sc w (snd (cache_comments cs w))"
proof (induction cs arbitrary: w)
  case Nil
  show ?case by (simp add: quiet_refl)
next
  case (Cons c cs)
  show ?case
    using Cons.IH by (auto intro: quiet_refl quiet_trans[OF quiet_caches(4)])
qed

lemma retrieveComments_start_quiet: "quiet op k sc w (snd (retrieveComments_start h blockId options w))"
proof -
  have n: "(operation, JObj [(''block_id'', blockId)]) \<noteq> page_request op k" for operation
    by (simp add: page_request_def page_params_def)
  show ?thesis
    unfolding retrieveComments_start_def Let_def
    by (auto split: option.splits intro: quiet_refl quiet_call[OF disjI1[OF n]])
qed

lemma retrieveComments_finish_quiet: "quiet op k sc w (snd (retrieveComments_finish response w))"
  unfolding retrieveComments_finish_def Let_def
  by (auto split: exec_result.splits json.splits intro: quiet_refl cache_comments_quiet)

lemma property_start_quiet: "quiet op k sc w (snd (property_start h pageId propId key options w))"
proof -
  have n: "(operation, JObj [(''page_id'', pageId), (''property_id'', propId)]) \<noteq> page_request op k"
    for operation
    by (simp add: page_request_def page_params_def)
  show ?thesis
    unfolding property_start_def Let_def
    by (auto split: option.splits sum.splits bool.splits
        intro: quiet_refl quiet_call[OF disjI1[OF n]])
qed

lemma property_finish_quiet: "quiet op k sc w (snd (property_finish h key r w))"
  unfolding property_finish_def Let_def by (auto intro: quiet_refl quiet_caches)

lemma start_entries_quiet:
  "quiet op k sc w (snd (start_entries h pageId options entries w))"
proof (induction entries arbitrary: w)
  case Nil
  show ?case by (simp add: quiet_refl)
next
  case (Cons entry entries)
  have "quiet op k sc w (snd (start_entries h pageId options entries
          (snd (property_start h pageId (get ''id'' (snd entry)) key options w))))" for key
    using property_start_quiet Cons.IH by (rule quiet_trans)
  with Cons.IH show ?case
    by (simp add: Let_def quiet_refl split: option.splits)
qed

lemma finish_entries_quiet:
  "quiet op k sc w (snd (finish_entries h tasks enriched w))"
proof (induction h tasks enriched w rule: finish_entries.induct)
  case (1 h enrichedProperties w)
  show ?case by (simp add: quiet_refl)
next
  case (2 h propName propData key task rest enrichedProperties w)
  show ?case
  proof (cases task)
    case (Written details)
    with 2 show ?thesis by simp
  next
    case Skipped
    with 2 show ?thesis by simp
  next
    case (Asked r)
    with "2.IH"(3)[OF Asked refl] property_finish_quiet[of op k sc w h key r]
    show ?thesis by (auto simp: Let_def intro: quiet_trans)
  qed
qed

text \<open>The tasks of the blocks.\<close>

lemma start_block_quiet:
  "quiet op k (flag (skipCache options)) w (snd (start_block h options currentDepth block w))"
proof (cases "nullish block")
  case True
  then show ?thesis by (simp add: start_block_def quiet_refl)
next
  case False
  let ?sc = "flag (skipCache options)"
  let ?w0 = "w\<lparr>blockCache := (blockCache w)(get ''id'' block \<mapsto> block)\<rparr>"
  define children where "children =
     (if truthy (get ''has_children'' block) then
        map_prod Some id (retrieveBlocksRecursively_start h (get ''id'' block) options (currentDepth + 1) ?w0)
      else (None, ?w0))"
  define database where "database =
     (if flag (includeDatabases options) \<and> is_database_block block
         \<and> truthy (get ''database_id'' (type_field block)) then
        map_prod Some id (retrieveDatabase_start h (get ''database_id'' (type_field block)) options (snd children))
      else (None, snd children))"
  define page where "page =
     (if get ''type'' block = JStr ''child_page'' \<and> int currentDepth < num_or (maxDepth options) 5 - 1 then
        map_prod Some id (retrievePageBasicInfo_start h (get ''id'' block) options (snd database))
      else (None, snd database))"
  have q0: "quiet op k ?sc w ?w0" by (rule quiet_caches)
  have q1: "quiet op k ?sc ?w0 (snd children)"
    unfolding children_def by (simp add: quiet_refl retrieveBlocksRecursively_start_quiet)
  have q2: "quiet op k ?sc (snd children) (snd database)"
    unfolding database_def by (simp add: quiet_refl retrieveDatabase_start_quiet)
  have q3: "quiet op k ?sc (snd database) (snd page)"
    unfolding page_def by (simp add: quiet_refl retrievePageBasicInfo_start_quiet)
  have "snd (start_block h options currentDepth block w) = snd page"
    using False by (simp add: start_block_def Let_def children_def database_def page_def)
  with q0 q1 q2 q3 show ?thesis by (metis quiet_trans)
qed

lemma finish_block_quiet:
  assumes c: "\<And>childId answer s v s'. children_finish childId answer s = Settled v s' \<Longrightarrow> quiet op k sc s s'"
    and f: "finish_block children_finish task w = Settled r w'"
  shows "quiet op k sc w w'"
proof -
  let ?block = "the_block task"
  define with_database where "with_database =
     (case database_task task of
        Some (Waiting response) \<Rightarrow>
          (let database = retrieveDatabase_finish (get ''database_id'' (type_field ?block)) response w in
           (set_field ''database'' (fst database) (settled_fields task), snd database))
      | _ \<Rightarrow> (settled_fields task, w))"
  define with_page where "with_page =
     (case page_task task of
        Some (Waiting response) \<Rightarrow>
          (let pageInfo = retrievePageBasicInfo_finish (get ''id'' ?block) response (snd with_database) in
           (set_field ''page_info'' (fst pageInfo) (fst with_database), snd pageInfo))
      | _ \<Rightarrow> with_database)"
  have q1: "quiet op k sc w (snd with_database)"
    unfolding with_database_def Let_def
    by (auto split: option.splits started.splits intro: quiet_refl retrieveDatabase_finish_quiet)
  have q2: "quiet op k sc (snd with_database) (snd with_page)"
    unfolding with_page_def Let_def
    by (auto split: option.splits started.splits intro: quiet_refl retrievePageBasicInfo_finish_quiet)
  have e: "finish_block children_finish task w =
     (case children_task task of
        Some (Waiting response) \<Rightarrow>
          (case children_finish (get ''id'' ?block) response (snd with_page) of
             Settled childBlocks w' \<Rightarrow>
               Settled (JObj (set_field ''children'' (JArr childBlocks) (fst with_page))) w'
           | Pending \<Rightarrow> Pending
           | Stuck \<Rightarrow> Stuck)
      | _ \<Rightarrow> Settled (JObj (fst with_page)) (snd with_page))"
    unfolding finish_block_def with_database_def with_page_def Let_def by (rule refl)
  from f[unfolded e] consider
    (none) "w' = snd with_page"
  | (some) answer v where "children_finish (get ''id'' ?block) answer (snd with_page) = Settled v w'"
    by (auto split: option.splits started.splits outcome.splits)
  then have "quiet op k sc (snd with_page) w'"
  proof cases
    case none
    then show ?thesis by (simp add: quiet_refl)
  next
    case some
    then show ?thesis by (rule c)
  qed
  with q1 q2 show ?thesis by (metis quiet_trans)
qed

lemma start_batch_quiet:
  assumes "\<And>b s. quiet op k sc s (snd (start b s))"
  shows "quiet op k sc w (snd (start_batch start batch w))"
proof (induction batch arbitrary: w)
  case Nil
  show ?case by (simp add: quiet_refl)
next
  case (Cons b batch)
  from assms[of w b] Cons.IH[of "snd (start b w)"] show ?case
    by (simp add: Let_def) (rule quiet_trans)
qed

lemma finish_batch_quiet:
  assumes "\<And>task s v s'. finish task s = Settled v s' \<Longrightarrow> quiet op k sc s s'"
    and "finish_batch finish tasks w = Settled results w'"
  shows "quiet op k sc w w'"
  using assms
proof (induction finish tasks w arbitrary: results rule: finish_batch.induct)
  case (1 finish w)
  then show ?case by (simp add: quiet_refl)
next
  case (2 finish e tasks w)
  from "2.prems"(2) obtain rs where "finish_batch finish tasks w = Settled rs w'"
    by (auto split: outcome.splits)
  then show ?case by (intro "2.IH" "2.prems"(1))
next
  case (3 finish task tasks w)
  from "3.prems"(2) obtain v w1 rs where
    a: "finish task w = Settled v w1" and b: "finish_batch finish tasks w1 = Settled rs w'"
    by (auto split: outcome.splits)
  have "quiet op k sc w1 w'"
    using b by (intro "3.IH"[OF a] "3.prems"(1))
  with "3.prems"(1)[OF a] show ?case by (rule quiet_trans)
qed

lemma promise_all_map_quiet:
  assumes s: "\<And>b s. quiet op k sc s (snd (start b s))"
    and t: "\<And>task s v s'. finish task s = Settled v s' \<Longrightarrow> quiet op k sc s s'"
    and p: "promise_all_map start finish batch w = Settled r w'"
  shows "quiet op k sc w w'"
proof -
  from p obtain results where
    f: "finish_batch finish (fst (start_batch start batch w)) (snd (start_batch start batch w)) =
          Settled results w'"
    by (auto simp: promise_all_map_def Let_def split: outcome.splits)
  from start_batch_quiet[of op k sc start w batch, OF s] finish_batch_quiet[OF t f]
  show ?thesis by (rule quiet_trans)
qed

lemma for_batches_quiet:
  assumes "\<And>b s. quiet op k sc s (snd (start b s))"
    and "\<And>task s v s'. finish task s = Settled v s' \<Longrightarrow> quiet op k sc s s'"
    and "for_batches start finish step blocks i enrichedBlocks w = Settled r w'"
  shows "quiet op k sc w w'"
  using assms
proof (induction start finish step blocks i enrichedBlocks w rule: for_batches.induct)
  case (1 start finish step blocks i enrichedBlocks w)
  note s = "1.prems"(1) and t = "1.prems"(2) and f = "1.prems"(3)
  show ?case
  proof (cases "i < int (length blocks)")
    case False
    with f show ?thesis by (simp add: for_batches.simps quiet_refl)
  next
    case True
    with f have n: "\<not> (step = 0 \<or> step < 0 \<and> i < 0)"
      by (auto simp: for_batches.simps[of start finish step blocks i] split: if_splits)
    from f True n obtain rb w1 where
      p: "promise_all_map start finish (slice blocks i (i + step)) w = Settled rb w1"
      by (auto simp: for_batches.simps[of start finish step blocks i] split: outcome.splits)
    have q: "quiet op k sc w w1"
      using s t p by (rule promise_all_map_quiet)
    show ?thesis
    proof (cases rb)
      case (Inl e)
      with f True n p have "w' = w1"
        by (simp add: for_batches.simps[of start finish step blocks i])
      with q show ?thesis by simp
    next
      case (Inr batchResults)
      with f True n p have
        "for_batches start finish step blocks (i + step) (enrichedBlocks @ batchResults) w1 = Settled r w'"
        by (simp add: for_batches.simps[of start finish step blocks i])
      then have "quiet op k sc w1 w'"
        by (intro "1.IH"[OF True n p Inr] s t)
      with q show ?thesis by (rule quiet_trans)
    qed
  qed
qed

lemma retrieveBlocksRecursively_finish_quiet:
  assumes "retrieveBlocksRecursively_finish h blockId options currentDepth response w = Settled r w'"
  shows "quiet op k (flag (skipCache options)) w w'"
  using assms
proof (induction h blockId options currentDepth response w arbitrary: r w'
    rule: retrieveBlocksRecursively_finish.induct)
  case (1 h blockId options currentDepth response w)
  let ?sc = "flag (skipCache options)"
  note run = "1.prems"
  show ?case
  proof (cases "num_or (maxDepth options) 5 \<le> int currentDepth")
    case True
    with run show ?thesis by (simp add: retrieveBlocksRecursively_finish.simps[of h blockId] quiet_refl)
  next
    case deep: False
    show ?thesis
    proof (cases "findOperation h ''API-get-block-children''")
      case None
      with run deep show ?thesis
        by (simp add: retrieveBlocksRecursively_finish.simps[of h blockId] quiet_refl)
    next
      case (Some operation)
      from run deep Some obtain x w1 where
        l: "list_children_finish h operation blockId response w = Some (x, w1)"
        by (auto simp: retrieveBlocksRecursively_finish.simps[of h blockId] split: option.splits prod.splits)
      have q1: "quiet op k ?sc w w1" using l by (rule list_children_finish_quiet)
      show ?thesis
      proof (cases x)
        case (Inl e)
        with run deep Some l have "w' = w1"
          by (simp add: retrieveBlocksRecursively_finish.simps[of h blockId])
        with q1 show ?thesis by simp
      next
        case (Inr blocks)
        show ?thesis
        proof (cases "blocks = []")
          case True
          with run deep Some l Inr have "w' = w1"
            by (simp add: retrieveBlocksRecursively_finish.simps[of h blockId])
          with q1 show ?thesis by simp
        next
          case False
          let ?finish = "finish_block (\<lambda>childId answer s.
                 retrieveBlocksRecursively_finish h childId options (currentDepth + 1) answer s)"
          from run deep Some l Inr False obtain y where
            f: "for_batches (start_block h options currentDepth) ?finish
                  (num_or (batchSize options) 10) blocks 0 [] w1 = Settled y w'"
            by (auto simp: retrieveBlocksRecursively_finish.simps[of h blockId]
                split: outcome.splits sum.splits)
          have children: "quiet op k ?sc s s'"
            if "retrieveBlocksRecursively_finish h childId options (currentDepth + 1) answer s = Settled v s'"
            for childId answer s v s'
            using "1.IH"[OF deep Some l refl Inr False that] .
          have task: "quiet op k ?sc s s'" if "?finish t s = Settled v s'" for t s v s'
            using children that by (rule finish_block_quiet)
          have "quiet op k ?sc w1 w'"
            by (rule for_batches_quiet[OF _ _ f]) (rule start_block_quiet, rule task)
          with q1 show ?thesis by (rule quiet_trans)
        qed
      qed
    qed
  qed
qed

lemma retrieveBlocksRecursively_quiet:
  assumes "retrieveBlocksRecursively h blockId options currentDepth w = Settled r w'"
  shows "quiet op k (flag (skipCache options)) w w'"
proof -
  let ?started = "retrieveBlocksRecursively_start h blockId options currentDepth w"
  have q: "quiet op k (flag (skipCache options)) w (snd ?started)"
    by (rule retrieveBlocksRecursively_start_quiet)
  from assms consider
    (ready) "w' = snd ?started"
  | (waiting) answer where
      "retrieveBlocksRecursively_finish h blockId options currentDepth answer (snd ?started) = Settled r w'"
    by (cases ?started) (auto simp: retrieveBlocksRecursively_def split: started.splits)
  then show ?thesis
  proof cases
    case ready
    with q show ?thesis by simp
  next
    case waiting
    from q retrieveBlocksRecursively_finish_quiet[OF waiting] show ?thesis by (rule quiet_trans)
  qed
qed

text \<open>The tasks of a page.\<close>

lemma start_tasks_quiet:
  "quiet op k (flag (skipCache options)) w (snd (start_tasks h pageId pageData options currentDepth w))"
proof -
  let ?sc = "flag (skipCache options)"
  define blocks where "blocks = retrieveBlocksRecursively_start h pageId options (currentDepth + 1) w"
  define properties where "properties =
     (if wants_properties options pageData then
        map_prod Some id
          (enrichPageProperties_start h pageId (get ''properties'' pageData) options (snd blocks))
      else (None, snd blocks))"
  define cmts where "cmts =
     (if flag (includeComments options) then
        map_prod Some id (retrieveComments_start h pageId options (snd properties))
      else (None, snd properties))"
  have q1: "quiet op k ?sc w (snd blocks)"
    unfolding blocks_def by (rule retrieveBlocksRecursively_start_quiet)
  have q2: "quiet op k ?sc (snd blocks) (snd properties)"
    unfolding properties_def by (simp add: quiet_refl enrichPageProperties_start_def start_entries_quiet)
  have q3: "quiet op k ?sc (snd properties) (snd cmts)"
    unfolding cmts_def by (simp add: quiet_refl retrieveComments_start_quiet)
  have "snd (start_tasks h pageId pageData options currentDepth w) = snd cmts"
    by (simp add: start_tasks_def Let_def blocks_def properties_def cmts_def)
  with q1 q2 q3 show ?thesis by (metis quiet_trans)
qed

lemma finish_tasks_quiet:
  assumes "finish_tasks h pageId pageData options currentDepth tasks w = Settled x w'"
  shows "quiet op k (flag (skipCache options)) w w'"
proof -
  let ?sc = "flag (skipCache options)"
  define props where "props =
     (case properties_task tasks of
        Some started \<Rightarrow>
          (let enriched = enrichPageProperties_finish h (get ''properties'' pageData) started w;
               changed = with_properties pageData (snd (fst enriched))
           in (fst (fst enriched), changed,
               (if pageCache (snd enriched) pageId = Some pageData
                then (snd enriched)\<lparr>pageCache := (pageCache (snd enriched))(pageId \<mapsto> changed)\<rparr>
                else snd enriched)))
      | None \<Rightarrow> (Inr JNull, pageData, w))"
  define cmts where "cmts =
     (case comments_task tasks of
        Some (Ready v) \<Rightarrow> (v, snd (snd props))
      | Some (Waiting response) \<Rightarrow> retrieveComments_finish response (snd (snd props))
      | None \<Rightarrow> (JNull, snd (snd props)))"
  have e: "quiet op k ?sc w (snd (enrichPageProperties_finish h properties started w))" for properties started
    by (simp add: enrichPageProperties_finish_def Let_def finish_entries_quiet)
  have q1: "quiet op k ?sc w (snd (snd props))"
    unfolding props_def Let_def
    by (auto split: option.splits intro: quiet_refl e quiet_trans[OF e quiet_caches(1)])
  have q2: "quiet op k ?sc (snd (snd props)) (snd cmts)"
    unfolding cmts_def
    by (auto split: option.splits started.splits intro: quiet_refl retrieveComments_finish_quiet)
  have f: "finish_tasks h pageId pageData options currentDepth tasks w =
     (case (case blocks_task tasks of
              Ready blocks \<Rightarrow> Settled blocks (snd cmts)
            | Waiting response \<Rightarrow>
                retrieveBlocksRecursively_finish h pageId options (currentDepth + 1) response (snd cmts)) of
        Settled blocks w' \<Rightarrow>
          Settled \<lparr>blocksData = blocks, enrichedProperties = fst props, comments = fst cmts,
                    pageData' = fst (snd props)\<rparr> w'
      | Pending \<Rightarrow> Pending
      | Stuck \<Rightarrow> Stuck)"
    unfolding finish_tasks_def props_def cmts_def Let_def by (rule refl)
  from assms[unfolded f] consider
    (ready) "w' = snd cmts"
  | (waiting) answer v where
      "retrieveBlocksRecursively_finish h pageId options (currentDepth + 1) answer (snd cmts) = Settled v w'"
    by (auto split: started.splits outcome.splits)
  then have "quiet op k ?sc (snd cmts) w'"
  proof cases
    case ready
    then show ?thesis by (simp add: quiet_refl)
  next
    case waiting
    then show ?thesis by (rule retrieveBlocksRecursively_finish_quiet)
  qed
  with q1 q2 show ?thesis by (metis quiet_trans)
qed

lemma quiet_unraced: "quiet op k sc w (unraced options w)"
  by (simp add: unraced_def quiet_caches)

lemma expand_page_quiet:
  assumes "snd (expand_page h tm pageId pageData options currentDepth raced w) = Some w'"
  shows "quiet op k (flag (skipCache options)) w w'"
proof (cases "nullish pageData \<and> flag (includeProperties options)")
  case True
  with assms obtain blocks w1 where
    b: "retrieveBlocksRecursively h pageId options (currentDepth + 1) w = Settled blocks w1"
    and w': "w' = (if raced then w1 else unraced options w1)"
    by (auto simp: expand_page_def at_rest_def split: outcome.splits)
  have "quiet op k (flag (skipCache options)) w1 w'"
    unfolding w' by (simp add: quiet_refl quiet_unraced)
  with retrieveBlocksRecursively_quiet[OF b] show ?thesis by (rule quiet_trans)
next
  case False
  let ?started = "start_tasks h pageId pageData options currentDepth w"
  from assms False obtain x where
    "finish_tasks h pageId pageData options currentDepth (fst ?started) (snd ?started) = Settled x w'"
    by (auto simp: expand_page_def at_rest_def Let_def split: option.splits outcome.splits if_splits sum.splits)
  from start_tasks_quiet finish_tasks_quiet[OF this] show ?thesis by (rule quiet_trans)
qed

lemma resolve_page_quiet:
  "quiet op k (flag (skipCache options)) w (snd (resolve_page h tm pageId options w))"
proof (cases "(if \<not> flag (skipCache options) then pageCache w pageId else None)")
  case (Some cached)
  then show ?thesis by (simp add: resolve_page_def quiet_refl)
next
  case None
  have c: "(operation, page_params pageId) \<noteq> page_request op k \<or> pageCache w k = None
      \<or> flag (skipCache options)" for operation
    using None by (auto simp: page_request_def page_params_def split: if_splits)
  show ?thesis
    using None unfolding resolve_page_def Let_def
    by (auto split: option.splits exec_result.splits
        intro: quiet_refl quiet_call[OF c] quiet_trans[OF quiet_call[OF c] quiet_caches(1)])
qed

lemma after_resolve_quiet:
  assumes "int currentDepth < num_or (maxDepth options) 5"
    and "resolve_page h tm pageId options w = (step, w1)"
    and "snd (retrievePage_try h tm pageId options currentDepth w) = Some w'"
  shows "quiet op k (flag (skipCache options)) w1 w'"
proof (cases step)
  case Missing
  with assms retrievePage_try_expands(3)[OF assms(1), of h tm pageId w w1]
  have "w' = unraced options w1" by simp
  then show ?thesis by (simp add: quiet_unraced)
next
  case (Thrown e)
  with assms retrievePage_try_expands(4)[OF assms(1), of h tm pageId w e w1]
  show ?thesis by (simp add: quiet_refl)
next
  case (Returned node)
  with assms retrievePage_try_expands(5)[OF assms(1), of h tm pageId w node w1]
  show ?thesis by (simp add: quiet_refl)
next
  case (Cached pageData)
  with assms retrievePage_try_expands(2)[OF assms(1), of h tm pageId w pageData w1]
  show ?thesis by (simp add: expand_page_quiet)
next
  case (Fetched pageData)
  with assms retrievePage_try_expands(1)[OF assms(1), of h tm pageId w pageData w1]
  show ?thesis by (simp add: expand_page_quiet)
qed

lemma retrievePage_try_quiet:
  assumes "snd (retrievePage_try h tm pageId options currentDepth w) = Some w'"
  shows "quiet op k (flag (skipCache options)) w w'"
proof (cases "int currentDepth < num_or (maxDepth options) 5")
  case False
  with assms show ?thesis by (auto simp: retrievePage_try_def quiet_unraced)
next
  case True
  obtain step w1 where r: "resolve_page h tm pageId options w = (step, w1)"
    by (cases "resolve_page h tm pageId options w")
  have "quiet op k (flag (skipCache options)) w w1"
    using resolve_page_quiet[of op k options w h tm pageId] r by simp
  with after_resolve_quiet[OF True r assms] show ?thesis by (blast intro: quiet_trans)
qed

lemma handleOnePagerRequest_world:
  "snd (handleOnePagerRequest h tm clk params w) =
   snd (retrievePage_try h tm (page_id params) (one_pager_options params) 0 w)"
  by (simp add: handleOnePagerRequest_def retrievePageRecursively_def Let_def
      split: prod.splits sum.splits option.splits)

lemma one_pager_skipCache: "flag (skipCache (one_pager_options params)) = flag (skipCache params)"
  by (simp add: one_pager_options_def flag_def)

lemma quiet_calls_since:
  assumes "quiet op k sc w w'"
  shows "calls w' = calls w @ calls_since w w'"
    and "\<not> sc \<Longrightarrow> pageCache w k \<noteq> None \<Longrightarrow> page_request op k \<notin> set (calls_since w w')"
    and "pageCache w k \<noteq> None \<Longrightarrow> pageCache w' k \<noteq> None"
  using assms by (auto simp: quiet_def calls_since_def)

lemma resolve_page_fresh_call:
  assumes "flag (skipCache options)" and "findOperation h ''API-retrieve-a-page'' = Some operation"
  shows "calls (snd (resolve_page h tm pageId options w)) = calls w @ [page_request operation pageId]"
  using assms
  by (auto simp: resolve_page_def executeOperation_def page_request_def Let_def split: exec_result.splits)

lemma resolve_page_first_fetch:
  assumes "\<not> flag (skipCache options)" and "findOperation h ''API-retrieve-a-page'' = Some operation"
    and "pageCache w pageId \<noteq> None
         \<or> (\<not> timer_before_fetch tm \<and> (\<exists>d. httpClient h (calls w) operation (page_params pageId) = Resolved 200 d))"
  shows "pageCache (snd (resolve_page h tm pageId options w)) pageId \<noteq> None
     \<and> (calls (snd (resolve_page h tm pageId options w)) = calls w
         \<or> calls (snd (resolve_page h tm pageId options w)) = calls w @ [page_request operation pageId])"
proof (cases "pageCache w pageId")
  case (Some cached)
  with assms(1) show ?thesis by (simp add: resolve_page_def)
next
  case None
  with assms show ?thesis
    by (auto simp: resolve_page_def executeOperation_def page_request_def Let_def)
qed

lemma calls_since_append: "calls w' = calls w @ new \<Longrightarrow> calls_since w w' = new"
  by (simp add: calls_since_def)

text \<open>
  C6, as the code has it. Let the lookup table have the operation that retrieves
  pages, and take runs of the aggregate operation that come to rest: the work they
  have started ends, and the next run begins after it. Two such runs on the same
  root that read the cache make at most one call for the root, and the second run
  makes none, provided the first run gets the root: the root is cached already, or
  \<^verbatim>\<open>maxDepth\<close> is absent or not negative and the fetch answers 200 before the timer
  fires. A run with \<^verbatim>\<open>skipCache\<close> set whose \<^verbatim>\<open>maxDepth\<close> is absent or not
  negative begins with a call for the root, whatever the cache holds. (With a
  negative \<^verbatim>\<open>maxDepth\<close> a run returns the depth stub and makes no call.)
\<close>

theorem page_cache_saves_calls:
  assumes operation: "findOperation h ''API-retrieve-a-page'' = Some operation"
  shows "(\<not> flag (skipCache params1) \<and> \<not> flag (skipCache params2)
          \<and> page_id params1 = rootId \<and> page_id params2 = rootId
          \<and> (pageCache w0 rootId \<noteq> None
              \<or> (0 < num_or (maxDepth params1) 5 \<and> \<not> timer_before_fetch tm1
                  \<and> (\<exists>d. httpClient h (calls w0) operation (page_params rootId) = Resolved 200 d)))
          \<and> snd (handleOnePagerRequest h tm1 clk1 params1 w0) = Some w1
          \<and> snd (handleOnePagerRequest h tm2 clk2 params2 w1) = Some w2
        \<longrightarrow> count_list (calls_since w1 w2) (page_request operation rootId) = 0
            \<and> count_list (calls_since w0 w2) (page_request operation rootId) \<le> 1)
       \<and> (flag (skipCache params) \<and> page_id params = rootId \<and> 0 < num_or (maxDepth params) 5
          \<and> snd (handleOnePagerRequest h tm clk params w) = Some w'
        \<longrightarrow> (\<exists>rest. calls w' = calls w @ page_request operation rootId # rest))"
proof (intro conjI impI)
  let ?q = "page_request operation rootId"
  assume a: "\<not> flag (skipCache params1) \<and> \<not> flag (skipCache params2)
          \<and> page_id params1 = rootId \<and> page_id params2 = rootId
          \<and> (pageCache w0 rootId \<noteq> None
              \<or> (0 < num_or (maxDepth params1) 5 \<and> \<not> timer_before_fetch tm1
                  \<and> (\<exists>d. httpClient h (calls w0) operation (page_params rootId) = Resolved 200 d)))
          \<and> snd (handleOnePagerRequest h tm1 clk1 params1 w0) = Some w1
          \<and> snd (handleOnePagerRequest h tm2 clk2 params2 w1) = Some w2"
  let ?o1 = "one_pager_options params1" and ?o2 = "one_pager_options params2"
  have sc: "\<not> flag (skipCache ?o1)" "\<not> flag (skipCache ?o2)"
    using a by (simp_all add: one_pager_skipCache)
  have run1: "snd (retrievePage_try h tm1 rootId ?o1 0 w0) = Some w1"
    and run2: "snd (retrievePage_try h tm2 rootId ?o2 0 w1) = Some w2"
    using a by (auto simp: handleOnePagerRequest_world)
  have first: "pageCache w1 rootId \<noteq> None
      \<and> (\<exists>new. ?q \<notin> set new \<and> (calls w1 = calls w0 @ new \<or> calls w1 = calls w0 @ ?q # new))"
  proof (cases "pageCache w0 rootId")
    case (Some cached)
    have "quiet operation rootId False w0 w1"
      using retrievePage_try_quiet[OF run1] sc by simp
    note n = quiet_calls_since[OF this]
    from n(2,3) Some have "pageCache w1 rootId \<noteq> None" "?q \<notin> set (calls_since w0 w1)" by simp_all
    with n(1) show ?thesis by blast
  next
    case None
    with a have d: "int 0 < num_or (maxDepth ?o1) 5"
      and f: "\<not> timer_before_fetch tm1
              \<and> (\<exists>d. httpClient h (calls w0) operation (page_params rootId) = Resolved 200 d)"
      by (simp_all add: one_pager_depth)
    obtain step wr where r: "resolve_page h tm1 rootId ?o1 w0 = (step, wr)"
      by (cases "resolve_page h tm1 rootId ?o1 w0")
    from resolve_page_first_fetch[OF sc(1) operation, of w0 rootId tm1] f r
    have cached: "pageCache wr rootId \<noteq> None"
      and fetch: "calls wr = calls w0 \<or> calls wr = calls w0 @ [?q]"
      by simp_all
    have "quiet operation rootId False wr w1"
      using after_resolve_quiet[OF d r run1] sc by simp
    note n = quiet_calls_since[OF this]
    from n(2,3) cached have c: "pageCache w1 rootId \<noteq> None" "?q \<notin> set (calls_since wr w1)" by simp_all
    from n(1) fetch have "calls w1 = calls w0 @ calls_since wr w1 \<or> calls w1 = calls w0 @ ?q # calls_since wr w1"
      by auto
    with c show ?thesis by blast
  qed
  then obtain new where c1: "pageCache w1 rootId \<noteq> None" and q1: "?q \<notin> set new"
    and calls1: "calls w1 = calls w0 @ new \<or> calls w1 = calls w0 @ ?q # new"
    by blast
  have second: "quiet operation rootId False w1 w2"
    using retrievePage_try_quiet[OF run2] sc by simp
  note n2 = quiet_calls_since[OF second]
  have q2: "?q \<notin> set (calls_since w1 w2)" using n2(2) c1 by simp
  show "count_list (calls_since w1 w2) ?q = 0"
    using q2 by (simp add: count_list_0_iff)
  define all where "all = new @ calls_since w1 w2"
  have q: "?q \<notin> set all" using q1 q2 by (simp add: all_def)
  from calls1 n2(1) have "calls w2 = calls w0 @ all \<or> calls w2 = calls w0 @ ?q # all"
    by (auto simp: all_def)
  then have "calls_since w0 w2 = all \<or> calls_since w0 w2 = ?q # all"
    by (auto dest: calls_since_append)
  then show "count_list (calls_since w0 w2) ?q \<le> 1"
    using q by (auto simp: count_list_0_iff)
next
  let ?q = "page_request operation rootId"
  assume b: "flag (skipCache params) \<and> page_id params = rootId \<and> 0 < num_or (maxDepth params) 5
          \<and> snd (handleOnePagerRequest h tm clk params w) = Some w'"
  let ?o = "one_pager_options params"
  have sc: "flag (skipCache ?o)" using b by (simp add: one_pager_skipCache)
  have d: "int 0 < num_or (maxDepth ?o) 5" using b by (simp add: one_pager_depth)
  have run: "snd (retrievePage_try h tm rootId ?o 0 w) = Some w'"
    using b by (auto simp: handleOnePagerRequest_world)
  obtain step wr where r: "resolve_page h tm rootId ?o w = (step, wr)"
    by (cases "resolve_page h tm rootId ?o w")
  have "calls wr = calls w @ [?q]"
    using resolve_page_fresh_call[OF sc operation, of tm rootId w] r by simp
  moreover have "calls w' = calls wr @ calls_since wr w'"
    using quiet_calls_since(1)[OF after_resolve_quiet[OF d r run]] .
  ultimately show "\<exists>rest. calls w' = calls w @ ?q # rest" by simp
qed

text \<open>The runs of the test page behind the lookup table that has the operation for pages only.\<close>

lemma page_only_expansion:
  "expand_page page_only_host no_timer (JStr ''test-page-id'') test_page
     (one_pager_options (test_params\<lparr>skipCache := sc\<rparr>)) 0 raced
     (fresh\<lparr>calls := cs, pageCache := [JStr ''test-page-id'' \<mapsto> test_page]\<rparr>) =
   (Some (Inr (JObj [(''object'', JStr ''page''), (''id'', JStr ''test-page-id''),
       (''properties'', JObj [(''title'', JObj [(''id'', JStr ''title''), (''type'', JStr ''title'')])]),
       (''has_children'', JBool True),
       (''content'', JArr [failed_node (JStr ''test-page-id'')
          (Error ''Error'' ''API-get-block-children method not found.'')]),
       (''detailed_properties'',
          JObj [(''title'', JObj [(''id'', JStr ''title''), (''type'', JStr ''title'')])])])),
    Some (fresh\<lparr>calls := cs, pageCache := [JStr ''test-page-id'' \<mapsto> test_page]\<rparr>))"
  by (simp add: model_defs scenario_defs page_only_host_def)

lemma page_only_depth: "int 0 < num_or (maxDepth (one_pager_options (test_params\<lparr>skipCache := sc\<rparr>))) 5"
  by (simp add: one_pager_options_def test_params_def num_or_def)

lemma page_only_params: "test_params\<lparr>skipCache := None\<rparr> = test_params"
  by (simp add: test_params_def)

lemma page_only_run:
  "snd (handleOnePagerRequest page_only_host no_timer test_clock test_params fresh) = Some after_first_run"
proof -
  have "resolve_page page_only_host no_timer (JStr ''test-page-id'') (one_pager_options test_params) fresh =
      (Fetched test_page, fresh\<lparr>calls := [test_request], pageCache := [JStr ''test-page-id'' \<mapsto> test_page]\<rparr>)"
    by (simp add: resolve_page_def one_pager_options_def test_params_def flag_def fresh_def
        findOperation_def page_only_host_def executeOperation_def test_client_def no_timer_def
        test_request_def page_request_def Let_def)
  from retrievePage_try_expands(1)[OF page_only_depth[of None, unfolded page_only_params] this]
    page_only_expansion[of None True "[test_request]", unfolded page_only_params]
  show ?thesis
    by (simp add: handleOnePagerRequest_world after_first_run_def test_params_def)
qed

lemma page_only_second_run:
  "snd (handleOnePagerRequest page_only_host no_timer test_clock test_params after_first_run) =
     Some after_first_run"
proof -
  have "resolve_page page_only_host no_timer (JStr ''test-page-id'') (one_pager_options test_params)
          after_first_run = (Cached test_page, after_first_run)"
    by (simp add: resolve_page_def one_pager_options_def test_params_def flag_def after_first_run_def)
  from retrievePage_try_expands(2)[OF page_only_depth[of None, unfolded page_only_params] this]
    page_only_expansion[of None False "[test_request]", unfolded page_only_params]
  show ?thesis
    by (simp add: handleOnePagerRequest_world after_first_run_def test_params_def)
qed

lemma page_only_fresh_run:
  "snd (handleOnePagerRequest page_only_host no_timer test_clock (test_params\<lparr>skipCache := Some True\<rparr>)
          after_first_run) =
     Some (after_first_run\<lparr>calls := [test_request, test_request]\<rparr>)"
proof -
  let ?o = "one_pager_options (test_params\<lparr>skipCache := Some True\<rparr>)"
  have "resolve_page page_only_host no_timer (JStr ''test-page-id'') ?o after_first_run =
      (Fetched test_page,
       fresh\<lparr>calls := [test_request, test_request], pageCache := [JStr ''test-page-id'' \<mapsto> test_page]\<rparr>)"
    by (simp add: resolve_page_def one_pager_options_def test_params_def flag_def fresh_def
        findOperation_def page_only_host_def executeOperation_def test_client_def no_timer_def
        test_request_def page_request_def after_first_run_def Let_def)
  from retrievePage_try_expands(1)[OF page_only_depth[of "Some True"] this]
    page_only_expansion[of "Some True" True "[test_request, test_request]"]
  show ?thesis
    by (simp add: handleOnePagerRequest_world after_first_run_def test_params_def)
qed

theorem page_cache_saves_calls_witness:
  "count_list (calls_since after_first_run after_first_run) test_request = 0
   \<and> count_list (calls_since fresh after_first_run) test_request \<le> 1
   \<and> (\<exists>rest. calls (after_first_run\<lparr>calls := [test_request, test_request]\<rparr>) =
          calls after_first_run @ test_request # rest)"
proof -
  have operation: "findOperation page_only_host ''API-retrieve-a-page'' = Some page_op"
    by (simp add: findOperation_def page_only_host_def)
  have first: "0 < num_or (maxDepth test_params) 5 \<and> \<not> timer_before_fetch no_timer
      \<and> (\<exists>d. httpClient page_only_host (calls fresh) page_op (page_params (JStr ''test-page-id'')) =
            Resolved 200 d)"
    by (simp add: no_timer_def page_only_host_def test_client_def test_params_def num_or_def)
  have reads: "\<not> flag (skipCache test_params)" "page_id test_params = JStr ''test-page-id''"
    by (simp_all add: test_params_def flag_def)
  have skips: "flag (skipCache (test_params\<lparr>skipCache := Some True\<rparr>))"
      "page_id (test_params\<lparr>skipCache := Some True\<rparr>) = JStr ''test-page-id''"
      "0 < num_or (maxDepth (test_params\<lparr>skipCache := Some True\<rparr>)) 5"
    by (simp_all add: test_params_def flag_def num_or_def)
  note t = page_cache_saves_calls[OF operation, of test_params test_params "JStr ''test-page-id''" fresh
      no_timer test_clock after_first_run no_timer test_clock after_first_run
      "test_params\<lparr>skipCache := Some True\<rparr>" no_timer test_clock after_first_run
      "after_first_run\<lparr>calls := [test_request, test_request]\<rparr>"]
  from t first reads skips page_only_run page_only_second_run page_only_fresh_run
  show ?thesis
    unfolding test_request_def by blast
qed

text \<open>
  C6, as the claim states it, fails. On a source where the page is not found, nothing
  is cached, and two runs that read the cache make two calls for the root. And a
  run with \<^verbatim>\<open>skipCache\<close> set and \<^verbatim>\<open>maxDepth\<close> -1 makes no call at all.
\<close>

theorem failed_fetch_is_repeated:
  "snd (handleOnePagerRequest not_found_host no_timer test_clock test_params fresh) =
     Some (fresh\<lparr>calls := [test_request]\<rparr>)
   \<and> snd (handleOnePagerRequest not_found_host no_timer test_clock test_params
            (fresh\<lparr>calls := [test_request]\<rparr>)) =
     Some (fresh\<lparr>calls := [test_request, test_request]\<rparr>)
   \<and> count_list (calls_since fresh (fresh\<lparr>calls := [test_request, test_request]\<rparr>)) test_request = 2
   \<and> flag (skipCache test_params) = False
   \<and> findOperation not_found_host ''API-retrieve-a-page'' = Some page_op
   \<and> map_option calls (snd (handleOnePagerRequest test_host no_timer test_clock
        (test_params\<lparr>skipCache := Some True, maxDepth := Some (- 1)\<rparr>) fresh)) = Some []"
proof -
  let ?o = "one_pager_options test_params"
  have d: "int 0 < num_or (maxDepth ?o) 5"
    by (simp add: one_pager_options_def test_params_def num_or_def)
  have r: "resolve_page not_found_host no_timer (JStr ''test-page-id'') ?o (fresh\<lparr>calls := cs\<rparr>) =
      (Returned (JObj [(''id'', JStr ''test-page-id''), (''error'', JStr ''Failed to retrieve page''),
         (''status'', JNum 404), (''details'', not_found)]), fresh\<lparr>calls := cs @ [test_request]\<rparr>)" for cs
    by (simp add: resolve_page_def one_pager_options_def test_params_def flag_def fresh_def
        findOperation_def not_found_host_def test_lookup_def executeOperation_def no_timer_def
        not_found_client_def test_request_def page_request_def Let_def)
  have 1: "snd (handleOnePagerRequest not_found_host no_timer test_clock test_params fresh) =
     Some (fresh\<lparr>calls := [test_request]\<rparr>)"
    using retrievePage_try_expands(5)[OF d r[of "[]"]]
    by (simp add: handleOnePagerRequest_world test_params_def fresh_def)
  have 2: "snd (handleOnePagerRequest not_found_host no_timer test_clock test_params
            (fresh\<lparr>calls := [test_request]\<rparr>)) =
     Some (fresh\<lparr>calls := [test_request, test_request]\<rparr>)"
    using retrievePage_try_expands(5)[OF d r[of "[test_request]"]]
    by (simp add: handleOnePagerRequest_world test_params_def)
  have 3: "map_option calls (snd (handleOnePagerRequest test_host no_timer test_clock
        (test_params\<lparr>skipCache := Some True, maxDepth := Some (- 1)\<rparr>) fresh)) = Some []"
    by (simp add: handleOnePagerRequest_world retrievePage_try_def one_pager_options_def num_or_def
        test_params_def unraced_def fresh_def)
  show ?thesis
    using 1 2 3
    by (simp add: test_request_def page_request_def calls_since_def test_params_def flag_def
        findOperation_def not_found_host_def test_lookup_def fresh_def)
qed


section \<open>Properties of the aggregate operation\<close>















end
